theory Spec2Isabelle
  imports Complex_Main "HOL-Library.Log_Nat"
begin


section \<open>Python strings and numbers\<close>

text \<open>
  Strings are lists of 8-bit characters, read as the code points 0 to 255 of a Python
  \<open>str\<close>; code points above 255 are outside the model. Every exception of the source
  is a value of \<open>py_error\<close>, and a call that may raise returns \<open>py_error + 'a\<close>.
  The interpreter's limit on the length of integer strings is not modelled.
\<close>

datatype py_error = ValueError | KeyError | TypeError

definition is_digit :: "char \<Rightarrow> bool" where
  "is_digit c = (c \<in> set ''0123456789'')"

text \<open>The characters \<open>int()\<close> and \<open>float()\<close> strip: TAB, LF, VT, FF, CR, space, NEL, NBSP.\<close>

definition is_space :: "char \<Rightarrow> bool" where
  "is_space c = (c \<in> set [CHR 0x09, CHR 0x0A, CHR 0x0B, CHR 0x0C, CHR 0x0D, CHR 0x20,
                            CHR 0x85, CHR 0xA0])"

definition digit_val :: "char \<Rightarrow> nat" where
  "digit_val c = of_char c - 48"

definition digit_char :: "nat \<Rightarrow> char" where
  "digit_char d = ''0123456789'' ! d"

definition nat_of_digits :: "string \<Rightarrow> nat" where
  "nat_of_digits s = foldl (\<lambda>a c. 10 * a + digit_val c) 0 s"

text \<open>\<open>str(n)\<close> of a natural number: its decimal digits, no leading zero.\<close>

fun str_of_nat :: "nat \<Rightarrow> string" where
  "str_of_nat n = (if n < 10 then [digit_char n]
                   else str_of_nat (n div 10) @ [digit_char (n mod 10)])"

declare str_of_nat.simps [simp del]

text \<open>\<open>f"{i}"\<close> of a Python int.\<close>

definition str_of_int :: "int \<Rightarrow> string" where
  "str_of_int i = (if i < 0 then CHR ''-'' # str_of_nat (nat (- i)) else str_of_nat (nat i))"

text \<open>\<open>f"{i:02d}"\<close>: the sign counts in the width of two.\<close>

definition fmt_02d :: "int \<Rightarrow> string" where
  "fmt_02d i = (if i < 0 then str_of_int i
                else if i < 10 then CHR ''0'' # str_of_int i else str_of_int i)"

definition startswith :: "string \<Rightarrow> string \<Rightarrow> bool" where
  "startswith s p = (take (length p) s = p)"

text \<open>\<open>s.split('-')\<close>: never the empty list.\<close>

fun split_dash :: "string \<Rightarrow> string list" where
  "split_dash [] = [[]]"
| "split_dash (c # cs) =
     (if c = CHR ''-'' then [] # split_dash cs
      else (case split_dash cs of [] \<Rightarrow> [[c]] | t # ts \<Rightarrow> (c # t) # ts))"

definition strip :: "string \<Rightarrow> string" where
  "strip s = rev (dropWhile is_space (rev (dropWhile is_space s)))"

text \<open>
  Underscores in a numeric literal: each one stands between two digits. The flag says
  whether the character before is a digit.
\<close>

fun underscores_ok :: "bool \<Rightarrow> string \<Rightarrow> bool" where
  "underscores_ok prev [] = True"
| "underscores_ok prev (c # cs) =
     (if c = CHR ''_''
      then prev \<and> (case cs of [] \<Rightarrow> False | d # _ \<Rightarrow> is_digit d) \<and> underscores_ok False cs
      else underscores_ok (is_digit c) cs)"

definition drop_underscores :: "string \<Rightarrow> string" where
  "drop_underscores s = filter (\<lambda>c. c \<noteq> CHR ''_'') s"

text \<open>An optional sign: whether it is a minus, and the rest.\<close>

definition take_sign :: "string \<Rightarrow> bool \<times> string" where
  "take_sign s = (case s of [] \<Rightarrow> (False, [])
                  | c # cs \<Rightarrow> if c = CHR ''-'' then (True, cs)
                             else if c = CHR ''+'' then (False, cs) else (False, s))"

text \<open>\<open>int(s)\<close> in base ten.\<close>

definition py_int :: "string \<Rightarrow> py_error + int" where
  "py_int s =
     (let (neg, u) = take_sign (strip s) in
      if \<not> underscores_ok False u then Inl ValueError
      else let d = drop_underscores u in
        if d = [] \<or> \<not> list_all is_digit d then Inl ValueError
        else Inr (if neg then - int (nat_of_digits d) else int (nat_of_digits d)))"

subsection \<open>Floats\<close>

text \<open>
  A Python float is an IEEE 754 binary64 number: a rational that is a multiple of a power
  of two with at most 53 significant bits, an infinity, or NaN. Every operation computes
  the exact rational result and rounds it to the nearest double, ties to even. The sign
  of zero is not modelled: it shows only when a zero is printed, and the program prints
  sums and differences with 0.05, which are never a negative zero.
\<close>

datatype pyfloat = Finite rat | PosInf | NegInf | NaN

definition round_half_even :: "rat \<Rightarrow> int" where
  "round_half_even x =
     (let f = \<lfloor>x\<rfloor>; r = x - of_int f
      in if r < 1 / 2 then f else if 1 / 2 < r then f + 1 else if even f then f else f + 1)"

text \<open>The integer part of the binary logarithm of a positive rational.\<close>

definition floor_log2 :: "rat \<Rightarrow> int" where
  "floor_log2 x = (if 1 \<le> x then bitlen \<lfloor>x\<rfloor> - 1 else - bitlen (\<lceil>1 / x\<rceil> - 1))"

text \<open>
  Rounding to binary64: 53 bits at the exponent of the number, multiples of \<open>2^-1074\<close> below
  \<open>2^-1022\<close>, and an infinity from \<open>2^1024\<close> on.
\<close>

definition round_double :: "rat \<Rightarrow> pyfloat" where
  "round_double x =
     (if x = 0 then Finite 0
      else let a = \<bar>x\<bar>; e = max (floor_log2 a) (- 1022); u = 2 powi (e - 52);
               y = of_int (round_half_even (a / u)) * u
           in if 2 powi 1024 \<le> y then (if x < 0 then NegInf else PosInf)
              else Finite (if x < 0 then - y else y))"

definition fneg :: "pyfloat \<Rightarrow> pyfloat" where
  "fneg a = (case a of Finite x \<Rightarrow> Finite (- x) | PosInf \<Rightarrow> NegInf | NegInf \<Rightarrow> PosInf
             | NaN \<Rightarrow> NaN)"

fun fadd :: "pyfloat \<Rightarrow> pyfloat \<Rightarrow> pyfloat" where
  "fadd (Finite x) (Finite y) = round_double (x + y)"
| "fadd NaN b = NaN"
| "fadd a NaN = NaN"
| "fadd PosInf NegInf = NaN"
| "fadd NegInf PosInf = NaN"
| "fadd PosInf b = PosInf"
| "fadd NegInf b = NegInf"
| "fadd a PosInf = PosInf"
| "fadd a NegInf = NegInf"

definition fsub :: "pyfloat \<Rightarrow> pyfloat \<Rightarrow> pyfloat" where
  "fsub a b = fadd a (fneg b)"

text \<open>\<open>a <= b\<close> on floats: false as soon as one side is NaN.\<close>

fun fle :: "pyfloat \<Rightarrow> pyfloat \<Rightarrow> bool" where
  "fle NaN b = False"
| "fle a NaN = False"
| "fle NegInf b = True"
| "fle a PosInf = True"
| "fle (Finite x) (Finite y) = (x \<le> y)"
| "fle a b = False"

definition fge :: "pyfloat \<Rightarrow> pyfloat \<Rightarrow> bool" where
  "fge a b = fle b a"

text \<open>The literal \<open>0.05\<close>.\<close>

definition c005 :: pyfloat where
  "c005 = round_double (1 / 20)"

text \<open>Two digits, for the fraction of \<open>f"{x:.2f}"\<close>.\<close>

definition two_digits :: "nat \<Rightarrow> string" where
  "two_digits n = [digit_char (n div 10), digit_char (n mod 10)]"

text \<open>
  \<open>f"{x:.2f}"\<close>: the exact value of the double, rounded to two decimals, ties to even;
  a negative number keeps its sign when it rounds to zero.
\<close>

definition fmt_2f :: "pyfloat \<Rightarrow> string" where
  "fmt_2f a =
     (case a of
        NaN \<Rightarrow> ''nan'' | PosInf \<Rightarrow> ''inf'' | NegInf \<Rightarrow> ''-inf''
      | Finite x \<Rightarrow>
          (let n = nat (round_half_even (\<bar>x\<bar> * 100))
           in (if x < 0 then ''-'' else []) @ str_of_nat (n div 100) @ ''.''
              @ two_digits (n mod 100)))"

text \<open>Lower case, for the letters of \<open>inf\<close>, \<open>infinity\<close> and \<open>nan\<close>.\<close>

definition lower :: "char \<Rightarrow> char" where
  "lower c = (if c = CHR ''I'' then CHR ''i'' else if c = CHR ''N'' then CHR ''n''
              else if c = CHR ''F'' then CHR ''f'' else if c = CHR ''T'' then CHR ''t''
              else if c = CHR ''Y'' then CHR ''y'' else if c = CHR ''A'' then CHR ''a''
              else c)"

text \<open>
  The exact value of a decimal literal without sign and underscores:
  digits, an optional point and digits, an optional exponent; at least one digit before
  the exponent.
\<close>

definition parse_exponent :: "string \<Rightarrow> int option" where
  "parse_exponent r =
     (case r of [] \<Rightarrow> Some 0
      | c # cs \<Rightarrow>
          if c = CHR ''e'' \<or> c = CHR ''E''
          then (let (neg, d) = take_sign cs
                in if d = [] \<or> \<not> list_all is_digit d then None
                   else Some (if neg then - int (nat_of_digits d) else int (nat_of_digits d)))
          else None)"

definition parse_decimal :: "string \<Rightarrow> rat option" where
  "parse_decimal u =
     (let ip = takeWhile is_digit u; r1 = dropWhile is_digit u;
          fp = (if startswith r1 ''.'' then takeWhile is_digit (tl r1) else []);
          r2 = (if startswith r1 ''.'' then dropWhile is_digit (tl r1) else r1)
      in if ip = [] \<and> fp = [] then None
         else (case parse_exponent r2 of None \<Rightarrow> None
               | Some e \<Rightarrow> Some (of_nat (nat_of_digits (ip @ fp)) * 10 powi (e - int (length fp)))))"

text \<open>\<open>float(s)\<close>.\<close>

definition py_float :: "string \<Rightarrow> py_error + pyfloat" where
  "py_float s =
     (let (neg, u) = take_sign (strip s); l = map lower u
      in if l = ''inf'' \<or> l = ''infinity'' then Inr (if neg then NegInf else PosInf)
         else if l = ''nan'' then Inr NaN
         else if \<not> underscores_ok False u then Inl ValueError
         else (case parse_decimal (drop_underscores u) of
                 None \<Rightarrow> Inl ValueError
               | Some q \<Rightarrow> Inr (round_double (if neg then - q else q))))"

section \<open>The identifier parser\<close>

text \<open>\<open>re.match(r"SRG(\d+)", p)\<close>: group 1, when the pattern matches at the start.\<close>

definition re_match_SRG :: "string \<Rightarrow> string option" where
  "re_match_SRG p =
     (if startswith p ''SRG'' \<and> takeWhile is_digit (drop 3 p) \<noteq> []
      then Some (takeWhile is_digit (drop 3 p)) else None)"

text \<open>
  \<open>re.match(r"PP0*(\d+)", p)\<close>: the zeros are taken greedily; when no digit follows
  them, the last zero is given back to the group.
\<close>

definition re_match_PP :: "string \<Rightarrow> string option" where
  "re_match_PP p =
     (if \<not> startswith p ''PP'' then None
      else let r = drop 2 p;
               z = takeWhile (\<lambda>c. c = CHR ''0'') r;
               d = takeWhile is_digit (dropWhile (\<lambda>c. c = CHR ''0'') r)
           in if d \<noteq> [] then Some d else if z \<noteq> [] then Some ''0'' else None)"

text \<open>\<open>re.match(r"DEG(\d+)-", p)\<close>, used on circuit-pack names.\<close>

definition re_match_DEG_dash :: "string \<Rightarrow> string option" where
  "re_match_DEG_dash p =
     (let d = takeWhile is_digit (drop 3 p); r = dropWhile is_digit (drop 3 p)
      in if startswith p ''DEG'' \<and> d \<noteq> [] \<and> startswith r ''-'' then Some d else None)"

record if_info =
  layer :: "string option"
  degree_id :: "int option"
  srg_id :: "int option"
  pp_id :: "int option"
  direction :: "string option"
  frequency :: "string option"

definition info0 :: if_info where
  "info0 = \<lparr>layer = None, degree_id = None, srg_id = None, pp_id = None,
            direction = None, frequency = None\<rparr>"

text \<open>One round of the loop over the tokens; each \<open>try\<close> keeps the record on an error.\<close>

definition parse_token :: "if_info \<Rightarrow> string \<Rightarrow> if_info" where
  "parse_token info p =
     (if startswith p ''DEG'' then
        (case py_int (drop 3 p) of Inr v \<Rightarrow> info\<lparr>degree_id := Some v\<rparr> | Inl _ \<Rightarrow> info)
      else if startswith p ''SRG'' then
        (case re_match_SRG p of
           Some g \<Rightarrow> (case py_int g of Inr v \<Rightarrow> info\<lparr>srg_id := Some v\<rparr> | Inl _ \<Rightarrow> info)
         | None \<Rightarrow> info)
      else if startswith p ''PP'' then
        (case re_match_PP p of
           Some g \<Rightarrow> (case py_int g of Inr v \<Rightarrow> info\<lparr>pp_id := Some v\<rparr> | Inl _ \<Rightarrow> info)
         | None \<Rightarrow> info)
      else info)"

definition parse_direction :: "string list \<Rightarrow> if_info \<Rightarrow> if_info" where
  "parse_direction parts info =
     (if ''RX'' \<in> set parts then info\<lparr>direction := Some ''RX''\<rparr>
      else if ''TX'' \<in> set parts then info\<lparr>direction := Some ''TX''\<rparr> else info)"

definition parse_frequency :: "string \<Rightarrow> if_info \<Rightarrow> if_info" where
  "parse_frequency lst info =
     (case py_float lst of Inr _ \<Rightarrow> info\<lparr>frequency := Some lst\<rparr> | Inl _ \<Rightarrow> info)"

definition parse_layer :: "string \<Rightarrow> if_info \<Rightarrow> if_info" where
  "parse_layer pfx info =
     (if pfx \<in> set [''OMS'', ''OTS'', ''MC'', ''NMC''] then info\<lparr>layer := Some pfx\<rparr>
      else if startswith pfx ''SRG'' then info\<lparr>layer := Some ''NMC''\<rparr> else info)"

text \<open>
  \<open>parts[-1]\<close> and \<open>parts[0]\<close> raise on an empty list; the source returns before them
  when \<open>parts\<close> is empty.
\<close>

definition parse_if_name :: "string \<Rightarrow> py_error + if_info" where
  "parse_if_name if_name =
     (let parts = split_dash if_name in
      if parts = [] then Inr info0
      else Inr (parse_layer (hd parts)
                  (foldl parse_token
                     (parse_frequency (last parts) (parse_direction parts info0)) parts)))"

section \<open>The interface provisioner\<close>

definition mc_name :: "int \<Rightarrow> string \<Rightarrow> string \<Rightarrow> string" where
  "mc_name degree dir freq_str =
     ''MC-TTP-DEG'' @ str_of_int degree @ ''-'' @ dir @ ''-'' @ freq_str"

definition nmc_name :: "int \<Rightarrow> string \<Rightarrow> string \<Rightarrow> string" where
  "nmc_name degree dir freq_str =
     ''NMC-CTP-DEG'' @ str_of_int degree @ ''-'' @ dir @ ''-'' @ freq_str"

definition srg_pp_name :: "int \<Rightarrow> string \<Rightarrow> string \<Rightarrow> string" where
  "srg_pp_name pp dir freq_str =
     ''SRG1-PP'' @ fmt_02d pp @ ''-'' @ dir @ ''-'' @ freq_str"


section \<open>The configuration store\<close>

text \<open>
  A keyed collection of the store is an association list in the order of creation, with
  presence check, keyed lookup, create and delete. The store accepts every string for a
  leaf and reads it back as written; attribute access on the device tree does not fail;
  the validation and the failure of a commit are outside the model. A leaf that is not
  set reads as \<open>None\<close>, and \<open>str\<close> of it is the text \<open>None\<close>.
\<close>

type_synonym 'a klist = "(string \<times> 'a) list"

definition has_key :: "string \<Rightarrow> 'a klist \<Rightarrow> bool" where
  "has_key k l = (k \<in> set (map fst l))"

definition kl_update :: "string \<Rightarrow> ('a \<Rightarrow> 'a) \<Rightarrow> 'a klist \<Rightarrow> 'a klist" where
  "kl_update k f l = map (\<lambda>(k', v). if k' = k then (k', f v) else (k', v)) l"

definition kl_delete :: "string \<Rightarrow> 'a klist \<Rightarrow> 'a klist" where
  "kl_delete k l = filter (\<lambda>(k', v). k' \<noteq> k) l"

text \<open>\<open>l.create(k)\<close>: the entry of the key, made from the default when it is new.\<close>

definition kl_create :: "string \<Rightarrow> 'a \<Rightarrow> 'a klist \<Rightarrow> 'a klist" where
  "kl_create k v0 l = (if has_key k l then l else l @ [(k, v0)])"

definition py_str :: "string option \<Rightarrow> string" where
  "py_str v = (case v of None \<Rightarrow> ''None'' | Some s \<Rightarrow> s)"

record mc_ttp_c =
  min_freq :: "string option"
  max_freq :: "string option"

record nmc_ctp_c =
  nmc_frequency :: "string option"
  width :: "string option"

record interface_c =
  if_type :: "string option"
  administrative_state :: "string option"
  supporting_circuit_pack_name :: "string option"
  supporting_port :: "string option"
  supporting_interface_list :: "string list"
  mc_ttp :: "mc_ttp_c option"
  nmc_ctp :: "nmc_ctp_c option"

record connection_c =
  src_if :: "string option"
  dst_if :: "string option"
  opticalControlMode :: "string option"
  target_output_power :: "pyfloat option"

text \<open>
  A device: its address, the names of its circuit packs, its interfaces and its
  connections. Whether a connection has the leaf \<open>target_output_power\<close> is a matter of
  the device's data model, which the sources do not hold: it is a field of the device.
\<close>

record device_c =
  address :: "string option"
  circuit_packs :: "string list"
  interface :: "interface_c klist"
  roadm_connections :: "connection_c klist"
  has_target_output_power :: bool

definition new_interface :: interface_c where
  "new_interface = \<lparr>if_type = None, administrative_state = None,
     supporting_circuit_pack_name = None, supporting_port = None,
     supporting_interface_list = [], mc_ttp = None, nmc_ctp = None\<rparr>"

definition new_connection :: connection_c where
  "new_connection = \<lparr>src_if = None, dst_if = None, opticalControlMode = None,
     target_output_power = None\<rparr>"

text \<open>The attributes that the degree operations derive from degree and direction.\<close>

definition deg_pack :: "int \<Rightarrow> string \<Rightarrow> string" where
  "deg_pack degree dir =
     (if dir = ''RX'' then ''DEG'' @ str_of_int degree @ ''-AMPRX''
      else ''DEG'' @ str_of_int degree @ ''-AMPTX'')"

definition deg_port :: "int \<Rightarrow> string \<Rightarrow> string" where
  "deg_port degree dir =
     (if dir = ''RX'' then ''DEG'' @ str_of_int degree @ ''-AMPRX-IN''
      else ''DEG'' @ str_of_int degree @ ''-AMPTX-OUT'')"

definition oms_name :: "int \<Rightarrow> string \<Rightarrow> string" where
  "oms_name degree dir =
     (if dir = ''RX'' then ''OMS-DEG'' @ str_of_int degree @ ''-TTP-RX''
      else ''OMS-DEG'' @ str_of_int degree @ ''-TTP-TX'')"

text \<open>
  \<open>ensure_mc_deg\<close> returns the name, or raises when \<open>float(freq_str)\<close> does; the interface
  is created before, so the device of the result holds it in both cases.
\<close>

definition ensure_mc_deg ::
  "device_c \<Rightarrow> int \<Rightarrow> string \<Rightarrow> string \<Rightarrow> (py_error + string) \<times> device_c" where
  "ensure_mc_deg dev degree dir freq_str =
     (let if_name = mc_name degree dir freq_str in
      if has_key if_name (interface dev) then (Inr if_name, dev)
      else
        let intf = new_interface\<lparr>
              if_type := Some ''openROADM-if:mediaChannelTrailTerminationPoint'',
              administrative_state := Some ''inService'',
              supporting_circuit_pack_name := Some (deg_pack degree dir),
              supporting_port := Some (deg_port degree dir),
              supporting_interface_list := [oms_name degree dir]\<rparr>
        in case py_float freq_str of
             Inl e \<Rightarrow> (Inl e, dev\<lparr>interface := interface dev @ [(if_name, intf)]\<rparr>)
           | Inr f \<Rightarrow>
               (Inr if_name,
                dev\<lparr>interface := interface dev @
                  [(if_name, intf\<lparr>mc_ttp := Some \<lparr>min_freq = Some (fmt_2f (fsub f c005)),
                                                  max_freq = Some (fmt_2f (fadd f c005))\<rparr>\<rparr>)]\<rparr>))"

definition ensure_nmc_deg ::
  "device_c \<Rightarrow> int \<Rightarrow> string \<Rightarrow> string \<Rightarrow> string \<times> device_c" where
  "ensure_nmc_deg dev degree dir freq_str =
     (let if_name = nmc_name degree dir freq_str in
      if has_key if_name (interface dev) then (if_name, dev)
      else
        let mc_if = (if dir = ''RX'' then ''MC-TTP-DEG'' @ str_of_int degree @ ''-RX-'' @ freq_str
                     else ''MC-TTP-DEG'' @ str_of_int degree @ ''-TX-'' @ freq_str);
            intf = new_interface\<lparr>
              if_type := Some ''openROADM-if:networkMediaChannelConnectionTerminationPoint'',
              administrative_state := Some ''inService'',
              supporting_circuit_pack_name := Some (deg_pack degree dir),
              supporting_port := Some (deg_port degree dir),
              supporting_interface_list := [mc_if],
              nmc_ctp := Some \<lparr>nmc_frequency = Some freq_str, width = Some ''100''\<rparr>\<rparr>
        in (if_name, dev\<lparr>interface := interface dev @ [(if_name, intf)]\<rparr>))"

definition ensure_nmc_srg_pp ::
  "device_c \<Rightarrow> int \<Rightarrow> string \<Rightarrow> string \<Rightarrow> string \<times> device_c" where
  "ensure_nmc_srg_pp dev pp dir freq_str =
     (let if_name = srg_pp_name pp dir freq_str in
      if has_key if_name (interface dev) then (if_name, dev)
      else
        let intf = new_interface\<lparr>
              if_type := Some ''openROADM-if:networkMediaChannelConnectionTerminationPoint'',
              administrative_state := Some ''inService'',
              supporting_circuit_pack_name := Some ''SRG1-WSS'',
              supporting_port := Some (if dir = ''RX'' then ''SRG1-IN'' @ str_of_int pp
                                       else ''SRG1-OUT'' @ str_of_int pp),
              nmc_ctp := Some \<lparr>nmc_frequency = Some freq_str, width = Some ''100''\<rparr>\<rparr>
        in (if_name, dev\<lparr>interface := interface dev @ [(if_name, intf)]\<rparr>))"

section \<open>The frequency slot model\<close>

text \<open>The test of one interface in the loop of \<open>_slot_overlaps\<close>: whether it returns \<open>True\<close>.\<close>

definition slot_hit :: "string \<Rightarrow> pyfloat \<Rightarrow> pyfloat \<Rightarrow> string \<times> interface_c \<Rightarrow> bool" where
  "slot_hit pfx new_min new_max e =
     (if \<not> startswith (fst e) pfx then False
      else case mc_ttp (snd e) of
        None \<Rightarrow> False
      | Some mc \<Rightarrow>
          (case py_float (py_str (min_freq mc)) of
             Inl _ \<Rightarrow> False
           | Inr cur_min \<Rightarrow>
               (case py_float (py_str (max_freq mc)) of
                  Inl _ \<Rightarrow> False
                | Inr cur_max \<Rightarrow> \<not> (fle new_max cur_min \<or> fge new_min cur_max))))"

fun slot_scan :: "string \<Rightarrow> pyfloat \<Rightarrow> pyfloat \<Rightarrow> interface_c klist \<Rightarrow> bool" where
  "slot_scan pfx new_min new_max [] = False"
| "slot_scan pfx new_min new_max (e # es) =
     (if slot_hit pfx new_min new_max e then True else slot_scan pfx new_min new_max es)"

definition slot_overlaps :: "device_c \<Rightarrow> int \<Rightarrow> string \<Rightarrow> string \<Rightarrow> bool" where
  "slot_overlaps dev degree dir freq_str =
     (case py_float freq_str of
        Inl _ \<Rightarrow> False
      | Inr f \<Rightarrow>
          slot_scan (''MC-TTP-DEG'' @ str_of_int degree @ ''-'' @ dir @ ''-'')
            (fsub f c005) (fadd f c005) (interface dev))"


section \<open>The actions\<close>

text \<open>
  The topology cache and the root of the store. An action takes the committed root and
  returns what it wrote to \<open>output.result\<close>, or the exception that left it, and the root
  after it. A transaction that is left by an exception or by \<open>return\<close> before
  \<open>t.apply()\<close> changes nothing.
\<close>

record tp_c =
  tp_interface :: "string option"
  tp_layer :: "string option"
  tp_degree_id :: "int option"
  tp_srg_id :: "int option"
  tp_direction :: "string option"
  tp_frequency :: "string option"

record node_c =
  node_device :: "string option"
  mgmt_ip :: "string option"
  degree :: "int list"
  srg :: "int list"
  tp :: "tp_c klist"

record topo_connection_c =
  tc_name :: "string option"
  tc_device :: "string option"
  tc_src_if :: "string option"
  tc_dst_if :: "string option"

record optical_topology =
  node :: "node_c klist"
  connection :: "topo_connection_c klist"

record root_c =
  devices :: "device_c klist"
  topo :: optical_topology

subsection \<open>BuildConnection\<close>

record build_input =
  bi_device :: string
  bi_frequency :: string
  bi_src_degree :: "int option"
  bi_dst_degree :: "int option"
  bi_dst_pp :: "int option"

definition slot_conflict_msg :: "string \<Rightarrow> int \<Rightarrow> string \<Rightarrow> string" where
  "slot_conflict_msg freq_str deg side =
     ''Rejected: frequency slot '' @ freq_str @ '' overlaps existing MC on DEG''
       @ str_of_int deg @ '' '' @ side"

text \<open>
  The overlap checks in the read transaction: the rejection they return with, if any.
  A device that is missing raises inside the \<open>try\<close>, which logs and goes on.
\<close>

definition overlap_check :: "root_c \<Rightarrow> string \<Rightarrow> string \<Rightarrow> int \<Rightarrow> int option \<Rightarrow> string option" where
  "overlap_check r device_name freq_str src_deg dst_deg =
     (case map_of (devices r) device_name of
        None \<Rightarrow> None
      | Some dev_r \<Rightarrow>
          if slot_overlaps dev_r src_deg ''RX'' freq_str
          then Some (slot_conflict_msg freq_str src_deg ''RX'')
          else (case dst_deg of
                  None \<Rightarrow> None
                | Some d \<Rightarrow> if slot_overlaps dev_r d ''TX'' freq_str
                            then Some (slot_conflict_msg freq_str d ''TX'') else None))"

definition conn_name_of :: "int \<Rightarrow> int option \<Rightarrow> int option \<Rightarrow> string \<Rightarrow> py_error + string" where
  "conn_name_of src_deg dst_deg dst_pp freq_str =
     (case dst_deg of
        Some d \<Rightarrow> Inr (''DEG'' @ str_of_int src_deg @ ''-RX-to-DEG'' @ str_of_int d @ ''-TX-''
                        @ freq_str)
      | None \<Rightarrow>
          (case dst_pp of
             Some p \<Rightarrow> Inr (''DEG'' @ str_of_int src_deg @ ''-RX-to-SRG1-PP'' @ fmt_02d p
                             @ ''-TX-'' @ freq_str)
           | None \<Rightarrow> Inl TypeError))"

definition set_connection ::
  "bool \<Rightarrow> string \<Rightarrow> string \<Rightarrow> connection_c \<Rightarrow> connection_c" where
  "set_connection has_top src_if_name dst_if_name conn =
     (let c = conn\<lparr>src_if := Some src_if_name, dst_if := Some dst_if_name,
                     opticalControlMode := Some ''off''\<rparr>
      in if has_top then c\<lparr>target_output_power := Some (Finite 0)\<rparr> else c)"

text \<open>The destination stack: on a degree, or on the port pair of SRG1.\<close>

definition ensure_dst ::
  "device_c \<Rightarrow> int option \<Rightarrow> int option \<Rightarrow> string \<Rightarrow> (py_error + string) \<times> device_c" where
  "ensure_dst dev dst_deg dst_pp freq_str =
     (case dst_deg of
        Some d \<Rightarrow>
          (case ensure_mc_deg dev d ''TX'' freq_str of
             (Inl e, dev') \<Rightarrow> (Inl e, dev')
           | (Inr _, dev') \<Rightarrow>
               (case ensure_nmc_deg dev' d ''TX'' freq_str of (n, dev'') \<Rightarrow> (Inr n, dev'')))
      | None \<Rightarrow>
          (case dst_pp of
             Some p \<Rightarrow> (case ensure_nmc_srg_pp dev p ''TX'' freq_str of (n, dev') \<Rightarrow> (Inr n, dev'))
           | None \<Rightarrow> (Inl TypeError, dev)))"

text \<open>The write transaction on the device: the connection name and the device to commit.\<close>

definition build_device ::
  "device_c \<Rightarrow> int \<Rightarrow> int option \<Rightarrow> int option \<Rightarrow> string \<Rightarrow> py_error + string \<times> device_c" where
  "build_device dev src_deg dst_deg dst_pp freq_str =
     (case ensure_mc_deg dev src_deg ''RX'' freq_str of
        (Inl e, _) \<Rightarrow> Inl e
      | (Inr _, dev1) \<Rightarrow>
          (case ensure_nmc_deg dev1 src_deg ''RX'' freq_str of
             (src_if_name, dev2) \<Rightarrow>
               (case ensure_dst dev2 dst_deg dst_pp freq_str of
                  (Inl e, _) \<Rightarrow> Inl e
                | (Inr dst_if_name, dev3) \<Rightarrow>
                    (case conn_name_of src_deg dst_deg dst_pp freq_str of
                       Inl e \<Rightarrow> Inl e
                     | Inr conn_name \<Rightarrow>
                         Inr (conn_name,
                              dev3\<lparr>roadm_connections :=
                                kl_update conn_name
                                  (set_connection (has_target_output_power dev3)
                                     src_if_name dst_if_name)
                                  (kl_create conn_name new_connection
                                     (roadm_connections dev3))\<rparr>)))))"

definition build_connection :: "root_c \<Rightarrow> build_input \<Rightarrow> (py_error + string) \<times> root_c" where
  "build_connection r inp =
     (let device_name = bi_device inp; freq_str = bi_frequency inp in
      case bi_src_degree inp of
        None \<Rightarrow> (Inr ''Error: src-degree must be provided'', r)
      | Some src_deg \<Rightarrow>
          if bi_dst_degree inp = None \<and> bi_dst_pp inp = None
          then (Inr ''Error: either dst-degree or dst-pp must be provided'', r)
          else if bi_dst_degree inp \<noteq> None \<and> bi_dst_pp inp \<noteq> None
          then (Inr ''Error: provide only one of dst-degree or dst-pp'', r)
          else
            (case overlap_check r device_name freq_str src_deg (bi_dst_degree inp) of
               Some msg \<Rightarrow> (Inr msg, r)
             | None \<Rightarrow>
                 (case map_of (devices r) device_name of
                    None \<Rightarrow> (Inl KeyError, r)
                  | Some dev \<Rightarrow>
                      (case build_device dev src_deg (bi_dst_degree inp) (bi_dst_pp inp)
                              freq_str of
                         Inl e \<Rightarrow> (Inl e, r)
                       | Inr (conn_name, dev') \<Rightarrow>
                           (Inr (''Connection '' @ conn_name @ '' created on '' @ device_name),
                            r\<lparr>devices := kl_update device_name (\<lambda>_. dev') (devices r)\<rparr>)))))"

subsection \<open>DeleteConnection\<close>

text \<open>The supporting interfaces of the interfaces of a list that exist on the device.\<close>

definition supports_of :: "interface_c klist \<Rightarrow> string list \<Rightarrow> string list" where
  "supports_of ifs names =
     concat (map (\<lambda>n. case map_of ifs n of None \<Rightarrow> []
                       | Some i \<Rightarrow> supporting_interface_list i) names)"

definition used_if :: "device_c \<Rightarrow> string \<Rightarrow> string list" where
  "used_if dev conn_name =
     (let ends = concat (map (\<lambda>(k, rc). [py_str (src_if rc), py_str (dst_if rc)])
                   (kl_delete conn_name (roadm_connections dev)))
      in ends @ supports_of (interface dev) ends)"

definition delete_candidates :: "device_c \<Rightarrow> connection_c \<Rightarrow> string list" where
  "delete_candidates dev conn =
     (let eps = [py_str (src_if conn), py_str (dst_if conn)]
      in eps @ supports_of (interface dev) eps)"

text \<open>The loop that deletes the candidates which are not used.\<close>

definition delete_unused :: "string list \<Rightarrow> string list \<Rightarrow> interface_c klist \<Rightarrow> interface_c klist" where
  "delete_unused used cands ifs =
     foldl (\<lambda>l n. if n \<in> set used then l else if has_key n l then kl_delete n l else l) ifs cands"

definition delete_device :: "device_c \<Rightarrow> string \<Rightarrow> connection_c \<Rightarrow> device_c" where
  "delete_device dev conn_name conn =
     dev\<lparr>roadm_connections := kl_delete conn_name (roadm_connections dev),
         interface := delete_unused (used_if dev conn_name) (delete_candidates dev conn)
                        (interface dev)\<rparr>"

definition delete_connection :: "root_c \<Rightarrow> string \<Rightarrow> string \<Rightarrow> (py_error + string) \<times> root_c" where
  "delete_connection r device_name conn_name =
     (case map_of (devices r) device_name of
        None \<Rightarrow> (Inl KeyError, r)
      | Some dev \<Rightarrow>
          (case map_of (roadm_connections dev) conn_name of
             None \<Rightarrow> (Inr (''Connection '' @ [CHR 0x27] @ conn_name @ [CHR 0x27]
                              @ '' not found on device '' @ device_name), r)
           | Some conn \<Rightarrow>
               (Inr (''Connection '' @ [CHR 0x27] @ conn_name @ [CHR 0x27]
                       @ '' and associated MC/NMC interfaces successfully deleted on device ''
                       @ device_name),
                r\<lparr>devices := kl_update device_name
                                 (\<lambda>_. delete_device dev conn_name conn) (devices r)\<rparr>)))"

subsection \<open>DiscoverTopology\<close>

definition new_node :: node_c where
  "new_node = \<lparr>node_device = None, mgmt_ip = None, degree = [], srg = [], tp = []\<rparr>"

definition new_tp :: tp_c where
  "new_tp = \<lparr>tp_interface = None, tp_layer = None, tp_degree_id = None, tp_srg_id = None,
             tp_direction = None, tp_frequency = None\<rparr>"

definition new_topo_connection :: topo_connection_c where
  "new_topo_connection = \<lparr>tc_name = None, tc_device = None, tc_src_if = None,
                            tc_dst_if = None\<rparr>"

text \<open>\<open>if k not in l: l.create(k)\<close> on a list of integers.\<close>

definition ensure_id :: "int \<Rightarrow> int list \<Rightarrow> int list" where
  "ensure_id k l = (if k \<in> set l then l else l @ [k])"

text \<open>\<open>re.match(r"SRG(\d+)", cpname)\<close> needs no \<open>startswith\<close> before it: the same function.\<close>

definition cp_step :: "node_c \<Rightarrow> string \<Rightarrow> node_c" where
  "cp_step nd cpname =
     (case re_match_DEG_dash cpname of
        Some g \<Rightarrow> nd\<lparr>degree := ensure_id (int (nat_of_digits g)) (degree nd)\<rparr>
      | None \<Rightarrow>
          (case re_match_SRG cpname of
             Some g \<Rightarrow> nd\<lparr>srg := ensure_id (int (nat_of_digits g)) (srg nd)\<rparr>
           | None \<Rightarrow> nd))"

definition set_tp :: "string \<Rightarrow> if_info \<Rightarrow> tp_c \<Rightarrow> tp_c" where
  "set_tp if_name info t =
     (let t1 = t\<lparr>tp_interface := Some if_name\<rparr>;
          t2 = (case layer info of Some l \<Rightarrow> if l \<noteq> [] then t1\<lparr>tp_layer := Some l\<rparr> else t1
                | None \<Rightarrow> t1);
          t3 = (case degree_id info of Some d \<Rightarrow> t2\<lparr>tp_degree_id := Some d\<rparr> | None \<Rightarrow> t2);
          t4 = (case srg_id info of Some s \<Rightarrow> t3\<lparr>tp_srg_id := Some s\<rparr> | None \<Rightarrow> t3);
          t5 = (case direction info of
                  Some d \<Rightarrow> if d \<noteq> [] then t4\<lparr>tp_direction := Some d\<rparr> else t4
                | None \<Rightarrow> t4)
      in (case frequency info of
            Some f \<Rightarrow> if f \<noteq> [] then t5\<lparr>tp_frequency := Some f\<rparr> else t5
          | None \<Rightarrow> t5))"

definition if_step :: "node_c \<Rightarrow> string \<Rightarrow> py_error + node_c" where
  "if_step nd if_name =
     (case parse_if_name if_name of
        Inl e \<Rightarrow> Inl e
      | Inr info \<Rightarrow>
          Inr (nd\<lparr>tp := kl_update if_name (set_tp if_name info)
                          (kl_create if_name new_tp (tp nd)),
                  degree := (case degree_id info of Some d \<Rightarrow> ensure_id d (degree nd)
                             | None \<Rightarrow> degree nd),
                  srg := (case srg_id info of Some s \<Rightarrow> ensure_id s (srg nd)
                          | None \<Rightarrow> srg nd)\<rparr>))"

text \<open>A loop whose body may raise: the first exception ends it.\<close>

fun fold_err :: "('s \<Rightarrow> 'a \<Rightarrow> py_error + 's) \<Rightarrow> 's \<Rightarrow> 'a list \<Rightarrow> py_error + 's" where
  "fold_err f s [] = Inr s"
| "fold_err f s (x # xs) = (case f s x of Inl e \<Rightarrow> Inl e | Inr s' \<Rightarrow> fold_err f s' xs)"

definition rc_step ::
  "string \<Rightarrow> topo_connection_c klist \<Rightarrow> string \<times> connection_c \<Rightarrow> topo_connection_c klist" where
  "rc_step dev_name cs e =
     kl_update (fst e)
       (\<lambda>c. c\<lparr>tc_name := Some (fst e), tc_device := Some dev_name,
               tc_src_if := Some (py_str (src_if (snd e))),
               tc_dst_if := Some (py_str (dst_if (snd e)))\<rparr>)
       (kl_create (fst e) new_topo_connection cs)"

definition set_node :: "string \<Rightarrow> device_c \<Rightarrow> node_c \<Rightarrow> node_c" where
  "set_node dev_name dev nd =
     (let n1 = nd\<lparr>node_device := Some dev_name\<rparr>
      in case address dev of
           Some a \<Rightarrow> if a \<noteq> [] then n1\<lparr>mgmt_ip := Some a\<rparr> else n1
         | None \<Rightarrow> n1)"

text \<open>One round of the loop over the device names; a name without device is skipped.\<close>

definition discover_dev ::
  "device_c klist \<Rightarrow> optical_topology \<Rightarrow> string \<Rightarrow> py_error + optical_topology" where
  "discover_dev devs tpl dev_name =
     (case map_of devs dev_name of
        None \<Rightarrow> Inr tpl
      | Some dev \<Rightarrow>
          (let nodes1 = kl_create dev_name new_node (node tpl);
               nd0 = (case map_of nodes1 dev_name of Some n \<Rightarrow> n | None \<Rightarrow> new_node);
               nd1 = foldl cp_step (set_node dev_name dev nd0) (circuit_packs dev)
           in case fold_err if_step nd1 (map fst (interface dev)) of
                Inl e \<Rightarrow> Inl e
              | Inr nd' \<Rightarrow>
                  Inr \<lparr>node = kl_update dev_name (\<lambda>_. nd') nodes1,
                       connection = foldl (rc_step dev_name) (connection tpl)
                                      (roadm_connections dev)\<rparr>))"

definition discover_topology :: "root_c \<Rightarrow> string list \<Rightarrow> (py_error + string) \<times> root_c" where
  "discover_topology r input_device =
     (let devs = (if input_device \<noteq> [] then input_device else map fst (devices r))
      in case fold_err (discover_dev (devices r)) \<lparr>node = [], connection = []\<rparr> devs of
           Inl e \<Rightarrow> (Inl e, r)
         | Inr tpl \<Rightarrow> (Inr ''Discovery complete'', r\<lparr>topo := tpl\<rparr>))"


section \<open>Example states\<close>

definition dev_empty :: device_c where
  "dev_empty = \<lparr>address = None, circuit_packs = [], interface = [], roadm_connections = [],
                 has_target_output_power = True\<rparr>"

definition root_D1 :: root_c where
  "root_D1 = \<lparr>devices = [(''D1'', dev_empty)], topo = \<lparr>node = [], connection = []\<rparr>\<rparr>"

text \<open>The input of a build from a degree to a degree on D1.\<close>

definition deg_deg_input :: "int \<Rightarrow> int \<Rightarrow> string \<Rightarrow> build_input" where
  "deg_deg_input s d f = \<lparr>bi_device = ''D1'', bi_frequency = f, bi_src_degree = Some s,
                            bi_dst_degree = Some d, bi_dst_pp = None\<rparr>"

text \<open>The media-channel interface that \<open>ensure_mc_deg\<close> creates for a slot.\<close>

definition mc_interface :: "int \<Rightarrow> string \<Rightarrow> string \<Rightarrow> string \<Rightarrow> interface_c" where
  "mc_interface deg dir lo hi =
     \<lparr>if_type = Some ''openROADM-if:mediaChannelTrailTerminationPoint'',
      administrative_state = Some ''inService'',
      supporting_circuit_pack_name = Some (deg_pack deg dir),
      supporting_port = Some (deg_port deg dir),
      supporting_interface_list = [oms_name deg dir],
      mc_ttp = Some \<lparr>min_freq = Some lo, max_freq = Some hi\<rparr>,
      nmc_ctp = None\<rparr>"

definition nmc_interface :: "int \<Rightarrow> string \<Rightarrow> string \<Rightarrow> interface_c" where
  "nmc_interface deg dir freq_str =
     \<lparr>if_type = Some ''openROADM-if:networkMediaChannelConnectionTerminationPoint'',
      administrative_state = Some ''inService'',
      supporting_circuit_pack_name = Some (deg_pack deg dir),
      supporting_port = Some (deg_port deg dir),
      supporting_interface_list = [mc_name deg dir freq_str],
      mc_ttp = None,
      nmc_ctp = Some \<lparr>nmc_frequency = Some freq_str, width = Some ''100''\<rparr>\<rparr>"

text \<open>D1 after the build from degree 1 to degree 2 at 193.3.\<close>

definition conn_1933 :: connection_c where
  "conn_1933 = \<lparr>src_if = Some ''NMC-CTP-DEG1-RX-193.3'', dst_if = Some ''NMC-CTP-DEG2-TX-193.3'',
                 opticalControlMode = Some ''off'', target_output_power = Some (Finite 0)\<rparr>"

definition dev_1933 :: device_c where
  "dev_1933 = dev_empty\<lparr>
     interface :=
       [(''MC-TTP-DEG1-RX-193.3'', mc_interface 1 ''RX'' ''193.25'' ''193.35''),
        (''NMC-CTP-DEG1-RX-193.3'', nmc_interface 1 ''RX'' ''193.3''),
        (''MC-TTP-DEG2-TX-193.3'', mc_interface 2 ''TX'' ''193.25'' ''193.35''),
        (''NMC-CTP-DEG2-TX-193.3'', nmc_interface 2 ''TX'' ''193.3'')],
     roadm_connections := [(''DEG1-RX-to-DEG2-TX-193.3'', conn_1933)]\<rparr>"

definition root_1933 :: root_c where
  "root_1933 = \<lparr>devices = [(''D1'', dev_1933)], topo = \<lparr>node = [], connection = []\<rparr>\<rparr>"


text \<open>
  D1 with a second connection, to port pair 3 of SRG1, that shares the source interface
  of the first.
\<close>

definition srg_interface :: "int \<Rightarrow> string \<Rightarrow> string \<Rightarrow> interface_c" where
  "srg_interface pp dir freq_str =
     \<lparr>if_type = Some ''openROADM-if:networkMediaChannelConnectionTerminationPoint'',
      administrative_state = Some ''inService'',
      supporting_circuit_pack_name = Some ''SRG1-WSS'',
      supporting_port = Some (if dir = ''RX'' then ''SRG1-IN'' @ str_of_int pp
                              else ''SRG1-OUT'' @ str_of_int pp),
      supporting_interface_list = [],
      mc_ttp = None,
      nmc_ctp = Some \<lparr>nmc_frequency = Some freq_str, width = Some ''100''\<rparr>\<rparr>"

definition conn_shared :: connection_c where
  "conn_shared = \<lparr>src_if = Some ''NMC-CTP-DEG1-RX-193.3'', dst_if = Some ''SRG1-PP03-TX-193.3'',
                   opticalControlMode = Some ''off'', target_output_power = Some (Finite 0)\<rparr>"

definition dev_shared :: device_c where
  "dev_shared = dev_1933\<lparr>
     interface := interface dev_1933 @ [(''SRG1-PP03-TX-193.3'', srg_interface 3 ''TX'' ''193.3'')],
     roadm_connections := roadm_connections dev_1933
                            @ [(''DEG1-RX-to-SRG1-PP03-TX-193.3'', conn_shared)]\<rparr>"

definition dev_shared_after :: device_c where
  "dev_shared_after = dev_empty\<lparr>
     interface :=
       [(''MC-TTP-DEG1-RX-193.3'', mc_interface 1 ''RX'' ''193.25'' ''193.35''),
        (''NMC-CTP-DEG1-RX-193.3'', nmc_interface 1 ''RX'' ''193.3''),
        (''SRG1-PP03-TX-193.3'', srg_interface 3 ''TX'' ''193.3'')],
     roadm_connections := [(''DEG1-RX-to-SRG1-PP03-TX-193.3'', conn_shared)]\<rparr>"

definition root_of :: "device_c \<Rightarrow> root_c" where
  "root_of dev = \<lparr>devices = [(''D1'', dev)], topo = \<lparr>node = [], connection = []\<rparr>\<rparr>"

text \<open>The result of a delete that found the connection.\<close>

definition deleted_msg :: "string \<Rightarrow> string \<Rightarrow> string" where
  "deleted_msg conn_name device_name =
     ''Connection '' @ [CHR 0x27] @ conn_name @ [CHR 0x27]
       @ '' and associated MC/NMC interfaces successfully deleted on device '' @ device_name"





text \<open>A decimal frequency string: digits, and optionally a point and digits.\<close>

definition is_decimal :: "string \<Rightarrow> bool" where
  "is_decimal s =
     (let ip = takeWhile is_digit s; r = dropWhile is_digit s
      in ip \<noteq> [] \<and>
         (r = [] \<or> (hd r = CHR ''.'' \<and> tl r \<noteq> [] \<and> list_all is_digit (tl r))))"

section \<open>Facts about the number model\<close>

lemma bitlen_eqI:
  fixes n :: int
  assumes "2 ^ j \<le> n" "n < 2 ^ Suc j"
  shows "bitlen n = int j + 1"
proof (rule antisym)
  show "bitlen n \<le> int j + 1"
    using assms(2) by (simp add: bitlen_le_iff_power nat_add_distrib)
  show "int j + 1 \<le> bitlen n"
    using assms(1) by (simp add: bitlen_ge_iff_power nat_add_distrib)
qed

lemma floor_log2_ge1:
  fixes x :: rat
  assumes "2 ^ j \<le> x" "x < 2 ^ Suc j"
  shows "floor_log2 x = int j"
proof -
  have x1: "1 \<le> x" using assms(1) one_le_power[of "2::rat" j] by linarith
  have "(2::int) ^ j \<le> \<lfloor>x\<rfloor>"
    using assms(1) by (simp add: le_floor_iff)
  moreover have "\<lfloor>x\<rfloor> < (2::int) ^ Suc j"
    using assms(2) by (simp add: floor_less_iff)
  ultimately have "bitlen \<lfloor>x\<rfloor> = int j + 1" by (rule bitlen_eqI)
  with x1 show ?thesis by (simp add: floor_log2_def)
qed

lemma floor_log2_lt1:
  fixes x :: rat
  assumes "0 < x" "1 \<le> x * 2 ^ Suc j" "x * 2 ^ Suc j < 2"
  shows "floor_log2 x = - int (Suc j)"
proof -
  have p: "(0::rat) < 2 ^ Suc j" by simp
  have x1: "\<not> 1 \<le> x"
  proof
    assume "1 \<le> x"
    then have "1 * 2 ^ Suc j \<le> x * 2 ^ Suc j" by (intro mult_right_mono) auto
    moreover have "(2::rat) \<le> 2 ^ Suc j" using one_le_power[of "2::rat" j] by simp
    ultimately show False using assms(3) by linarith
  qed
  have le: "1 / x \<le> 2 ^ Suc j"
    using assms(1,2) by (simp add: field_simps)
  have gt: "2 ^ j < 1 / x"
    using assms(1,3) by (simp add: field_simps)
  have "\<lceil>1 / x\<rceil> \<le> (2::int) ^ Suc j"
    using le by (simp add: ceiling_le_iff)
  then have a: "\<lceil>1 / x\<rceil> - 1 < (2::int) ^ Suc j" by linarith
  have "(2::int) ^ j < \<lceil>1 / x\<rceil>"
    using gt by (simp add: less_ceiling_iff)
  then have b: "(2::int) ^ j \<le> \<lceil>1 / x\<rceil> - 1" by linarith
  have "bitlen (\<lceil>1 / x\<rceil> - 1) = int j + 1" using b a by (rule bitlen_eqI)
  with x1 show ?thesis by (simp add: floor_log2_def)
qed


lemma floor_log2_eqI:
  fixes x :: rat
  assumes "2 powi k \<le> x" "x < 2 powi (k + 1)"
  shows "floor_log2 x = k"
proof (cases "0 \<le> k")
  case True
  define j where "j = nat k"
  have k: "k = int j" and k1: "k + 1 = int (Suc j)" using True by (simp_all add: j_def)
  have "x < 2 ^ Suc j" using assms(2) by (simp only: k1 power_int_of_nat)
  moreover have "2 ^ j \<le> x" using assms(1) by (simp only: k power_int_of_nat)
  ultimately have "floor_log2 x = int j" by (rule floor_log2_ge1[rotated])
  then show ?thesis by (simp only: k)
next
  case False
  define j where "j = nat (- k - 1)"
  have k: "k = - int (Suc j)" and k1: "k + 1 = - int j" using False by (simp_all add: j_def)
  have p: "(0::rat) < 2 ^ Suc j" "(0::rat) < 2 ^ j" by simp_all
  have e1: "(2::rat) powi k = inverse (2 ^ Suc j)"
    by (simp only: k power_int_minus power_int_of_nat)
  have e2: "(2::rat) powi (k + 1) = inverse (2 ^ j)"
    by (simp only: k1 power_int_minus power_int_of_nat)
  have "inverse (2 ^ Suc j) \<le> x" using assms(1) by (simp only: e1)
  then have a: "1 \<le> x * 2 ^ Suc j"
    using p(1) by (simp only: inverse_eq_divide pos_divide_le_eq)
  have "x < inverse (2 ^ j)" using assms(2) by (simp only: e2)
  then have "x * 2 ^ j < 1"
    using p(2) by (simp only: inverse_eq_divide pos_less_divide_eq)
  then have b: "x * 2 ^ Suc j < 2" by simp
  have "(0::rat) < inverse (2 ^ Suc j)" using p(1) by (simp only: inverse_positive_iff_positive)
  then have "0 < x" using \<open>inverse (2 ^ Suc j) \<le> x\<close> by (rule less_le_trans)
  then have "floor_log2 x = - int (Suc j)" using a b by (rule floor_log2_lt1)
  then show ?thesis by (simp only: k)
qed

lemma round_half_even_eqI:
  assumes "of_int m - 1 / 2 < x" "x < of_int m + 1 / 2"
  shows "round_half_even x = m"
proof (cases "of_int m \<le> x")
  case True
  then have "\<lfloor>x\<rfloor> = m" using assms(2) by (intro floor_unique) auto
  then show ?thesis using assms(2) by (simp add: round_half_even_def Let_def)
next
  case False
  then have "\<lfloor>x\<rfloor> = m - 1" using assms(1) by (intro floor_unique) auto
  then show ?thesis using assms(1) False by (simp add: round_half_even_def Let_def)
qed

lemma round_double_eval:
  assumes "2 powi k \<le> x" "x < 2 powi (k + 1)" "- 1022 \<le> k" "k < 1023"
    and "of_int m - 1 / 2 < x / 2 powi (k - 52)" "x / 2 powi (k - 52) < of_int m + 1 / 2"
  shows "round_double x = Finite (of_int m * 2 powi (k - 52))"
proof -
  have "(0::rat) < 2 powi k" by simp
  then have pos: "0 < x" using assms(1) by (rule less_le_trans)
  have fl: "floor_log2 x = k" using assms(1,2) by (rule floor_log2_eqI)
  have rh: "round_half_even (x / 2 powi (k - 52)) = m" using assms(5,6) by (rule round_half_even_eqI)
  have u: "0 < (2::rat) powi (k - 52)" by simp
  have "x / 2 powi (k - 52) < 2 powi (k + 1) / 2 powi (k - 52)"
    using assms(2) u by (rule divide_strict_right_mono)
  also have "\<dots> = (2::rat) powi ((k + 1) - (k - 52))"
    by (rule power_int_diff[symmetric]) simp
  also have "\<dots> = 2 powi 53" by simp
  finally have "of_int m - 1 / 2 < (2::rat) powi 53" using assms(5) by linarith
  then have "rat_of_int m < of_int (2 ^ 53 + 1)" by simp
  then have "m < 2 ^ 53 + 1" by (simp only: of_int_less_iff)
  then have "rat_of_int m \<le> of_int (2 ^ 53)" by (simp only: of_int_le_iff)
  then have "rat_of_int m \<le> 2 powi 53" by simp
  then have "of_int m * 2 powi (k - 52) \<le> 2 powi 53 * (2::rat) powi (k - 52)"
    using u by (intro mult_right_mono) auto
  also have "\<dots> = 2 powi (53 + (k - 52))"
    by (rule power_int_add[symmetric]) simp
  also have "\<dots> \<le> 2 powi 1023"
    using assms(4) by (intro power_int_increasing) auto
  also have "\<dots> < (2::rat) powi 1024"
    by (intro power_int_strict_increasing) auto
  finally have no: "\<not> 2 powi 1024 \<le> rat_of_int m * 2 powi (k - 52)" by (simp only: not_le)
  have ax: "\<bar>x\<bar> = x" using pos by simp
  have e: "max (floor_log2 x) (- 1022) = k" using fl assms(3) by (simp only: max_def) simp
  have nz: "x \<noteq> 0" "\<not> x < 0" using pos by auto
  show ?thesis
    unfolding round_double_def Let_def ax e rh using nz no by (simp only: if_False)
qed

lemma fmt_2f_eval:
  assumes "0 \<le> x" "of_nat n - 1 / 2 < x * 100" "x * 100 < of_nat n + 1 / 2"
  shows "fmt_2f (Finite x) = str_of_nat (n div 100) @ ''.'' @ two_digits (n mod 100)"
proof -
  have "round_half_even (x * 100) = int n"
    using assms(2,3) by (intro round_half_even_eqI) auto
  then show ?thesis using assms(1) by (simp add: fmt_2f_def Let_def)
qed

section \<open>Facts about the store and the actions\<close>

lemma has_key_append [simp]: "has_key k (l @ [(k', v)]) = (has_key k l \<or> k = k')"
  by (auto simp: has_key_def)



lemma ensure_mc_deg_fst:
  "\<not> isl (py_float f) \<Longrightarrow> fst (ensure_mc_deg dev d dir f) = Inr (mc_name d dir f)"
  by (cases "py_float f") (simp_all add: ensure_mc_deg_def Let_def)




lemma ensure_nmc_deg_fst: "fst (ensure_nmc_deg dev d dir f) = nmc_name d dir f"
  by (simp add: ensure_nmc_deg_def Let_def)

lemma ensure_nmc_srg_pp_fst: "fst (ensure_nmc_srg_pp dev pp dir f) = srg_pp_name pp dir f"
  by (simp add: ensure_nmc_srg_pp_def Let_def)



lemma build_src_none:
  "bi_src_degree inp = None \<Longrightarrow>
     build_connection r inp = (Inr ''Error: src-degree must be provided'', r)"
  by (simp add: build_connection_def)

lemma build_dst_none:
  "bi_src_degree inp = Some s \<Longrightarrow> bi_dst_degree inp = None \<Longrightarrow> bi_dst_pp inp = None \<Longrightarrow>
     build_connection r inp = (Inr ''Error: either dst-degree or dst-pp must be provided'', r)"
  by (simp add: build_connection_def)

lemma build_dst_both:
  "bi_src_degree inp = Some s \<Longrightarrow> bi_dst_degree inp = Some d \<Longrightarrow> bi_dst_pp inp = Some p \<Longrightarrow>
     build_connection r inp = (Inr ''Error: provide only one of dst-degree or dst-pp'', r)"
  by (simp add: build_connection_def)

lemma build_valid:
  "bi_src_degree inp = Some s \<Longrightarrow> (bi_dst_degree inp = None) \<noteq> (bi_dst_pp inp = None) \<Longrightarrow>
     build_connection r inp =
       (case overlap_check r (bi_device inp) (bi_frequency inp) s (bi_dst_degree inp) of
          Some msg \<Rightarrow> (Inr msg, r)
        | None \<Rightarrow>
            (case map_of (devices r) (bi_device inp) of
               None \<Rightarrow> (Inl KeyError, r)
             | Some dev \<Rightarrow>
                 (case build_device dev s (bi_dst_degree inp) (bi_dst_pp inp) (bi_frequency inp) of
                    Inl e \<Rightarrow> (Inl e, r)
                  | Inr (conn_name, dev') \<Rightarrow>
                      (Inr (''Connection '' @ conn_name @ '' created on '' @ bi_device inp),
                       r\<lparr>devices := kl_update (bi_device inp) (\<lambda>_. dev') (devices r)\<rparr>))))"
  by (cases "bi_dst_degree inp"; cases "bi_dst_pp inp")
     (simp_all add: build_connection_def Let_def)

lemma build_changed:
  assumes "snd (build_connection r inp) \<noteq> r"
  shows "\<exists>cn. fst (build_connection r inp)
             = Inr (''Connection '' @ cn @ '' created on '' @ bi_device inp)"
proof (cases "bi_src_degree inp")
  case None
  then show ?thesis using assms by (simp add: build_src_none)
next
  case (Some s)
  show ?thesis
  proof (cases "(bi_dst_degree inp = None) \<noteq> (bi_dst_pp inp = None)")
    case True
    show ?thesis
      using assms unfolding build_valid[OF Some True]
      by (simp split: option.splits sum.splits prod.splits)
  next
    case False
    then show ?thesis using assms Some
      by (cases "bi_dst_degree inp"; cases "bi_dst_pp inp") (simp_all add: build_dst_none build_dst_both)
  qed
qed


lemma kl_delete_absent: "\<not> has_key n l \<Longrightarrow> kl_delete n l = l"
  by (induction l) (auto simp: kl_delete_def has_key_def)

lemma delete_step:
  "(if n \<in> set used then l else if has_key n l then kl_delete n l else l)
     = filter (\<lambda>(k, v). \<not> (k = n \<and> n \<notin> set used)) l"
proof (cases "n \<in> set used")
  case True
  then show ?thesis by simp
next
  case False
  have "(if has_key n l then kl_delete n l else l) = kl_delete n l"
    by (simp add: kl_delete_absent)
  also have "\<dots> = filter (\<lambda>(k, v). \<not> (k = n \<and> n \<notin> set used)) l"
    using False by (simp add: kl_delete_def)
  finally show ?thesis using False by simp
qed

lemma delete_unused_filter:
  "delete_unused used cands ifs
     = filter (\<lambda>(k, v). \<not> (k \<in> set cands \<and> k \<notin> set used)) ifs"
proof -
  let ?f = "\<lambda>(l::interface_c klist) n. filter (\<lambda>(k, v). \<not> (k = n \<and> n \<notin> set used)) l"
  have step: "(\<lambda>l n. if n \<in> set used then l else if has_key n l then kl_delete n l else l) = ?f"
    by (intro ext) (rule delete_step)
  have "foldl ?f ifs cands = filter (\<lambda>(k, v). \<not> (k \<in> set cands \<and> k \<notin> set used)) ifs"
  proof (induction cands arbitrary: ifs)
    case Nil
    show ?case by simp
  next
    case (Cons c cs)
    have "foldl ?f ifs (c # cs) = foldl ?f (?f ifs c) cs" by (simp only: foldl_Cons)
    also have "\<dots> = filter (\<lambda>(k, v). \<not> (k \<in> set cs \<and> k \<notin> set used)) (?f ifs c)"
      by (rule Cons.IH)
    also have "\<dots> = filter (\<lambda>(k, v). \<not> (k \<in> set (c # cs) \<and> k \<notin> set used)) ifs"
      by (simp only: filter_filter) (auto intro!: filter_cong)
    finally show ?case .
  qed
  then show ?thesis by (simp only: delete_unused_def step)
qed

lemma set_supports_of:
  "set (supports_of ifs names)
     = {s. \<exists>n i. n \<in> set names \<and> map_of ifs n = Some i \<and> s \<in> set (supporting_interface_list i)}"
  by (auto simp: supports_of_def split: option.splits) metis


























lemma split_dash_nonempty: "split_dash s \<noteq> []"
  by (induction s) (auto split: list.splits)

lemma parse_token_keep:
  "layer (parse_token i p) = layer i"
  "direction (parse_token i p) = direction i"
  "frequency (parse_token i p) = frequency i"
  by (simp_all add: parse_token_def split: sum.split option.split)

lemma foldl_parse_token_keep:
  "layer (foldl parse_token i ps) = layer i \<and>
   direction (foldl parse_token i ps) = direction i \<and>
   frequency (foldl parse_token i ps) = frequency i"
  by (induction ps arbitrary: i) (simp_all add: parse_token_keep)

lemma parse_token_degree:
  "(degree_id (parse_token i p) = None)
     = (degree_id i = None \<and> \<not> (startswith p ''DEG'' \<and> \<not> isl (py_int (drop 3 p))))"
  by (cases "py_int (drop 3 p)")
     (auto simp: parse_token_def split: sum.splits option.splits)

lemma parse_token_srg:
  "(srg_id (parse_token i p) = None)
     = (srg_id i = None \<and>
        \<not> (\<not> startswith p ''DEG'' \<and> startswith p ''SRG'' \<and>
           (case re_match_SRG p of None \<Rightarrow> False | Some g \<Rightarrow> \<not> isl (py_int g))))"
  by (auto simp: parse_token_def split: sum.splits option.splits)

lemma parse_token_pp:
  "(pp_id (parse_token i p) = None)
     = (pp_id i = None \<and>
        \<not> (\<not> startswith p ''DEG'' \<and> \<not> startswith p ''SRG'' \<and> startswith p ''PP'' \<and>
           (case re_match_PP p of None \<Rightarrow> False | Some g \<Rightarrow> \<not> isl (py_int g))))"
  by (auto simp: parse_token_def split: sum.splits option.splits)

lemma foldl_parse_token_degree:
  "(degree_id (foldl parse_token i ps) = None)
     = (degree_id i = None \<and>
        \<not> list_ex (\<lambda>p. startswith p ''DEG'' \<and> \<not> isl (py_int (drop 3 p))) ps)"
  by (induction ps arbitrary: i) (auto simp: parse_token_degree)

lemma foldl_parse_token_srg:
  "(srg_id (foldl parse_token i ps) = None)
     = (srg_id i = None \<and>
        \<not> list_ex (\<lambda>p. \<not> startswith p ''DEG'' \<and> startswith p ''SRG'' \<and>
           (case re_match_SRG p of None \<Rightarrow> False | Some g \<Rightarrow> \<not> isl (py_int g))) ps)"
  by (induction ps arbitrary: i) (auto simp: parse_token_srg)

lemma foldl_parse_token_pp:
  "(pp_id (foldl parse_token i ps) = None)
     = (pp_id i = None \<and>
        \<not> list_ex (\<lambda>p. \<not> startswith p ''DEG'' \<and> \<not> startswith p ''SRG'' \<and>
           startswith p ''PP'' \<and>
           (case re_match_PP p of None \<Rightarrow> False | Some g \<Rightarrow> \<not> isl (py_int g))) ps)"
  by (induction ps arbitrary: i) (auto simp: parse_token_pp)

lemma parse_if_name_eq:
  "parse_if_name s = Inr (parse_layer (hd (split_dash s))
     (foldl parse_token
        (parse_frequency (last (split_dash s)) (parse_direction (split_dash s) info0))
        (split_dash s)))"
  by (simp add: parse_if_name_def Let_def split_dash_nonempty)

lemma parse_layer_fields:
  "degree_id (parse_layer p i) = degree_id i" "srg_id (parse_layer p i) = srg_id i"
  "pp_id (parse_layer p i) = pp_id i" "direction (parse_layer p i) = direction i"
  "frequency (parse_layer p i) = frequency i"
  by (simp_all add: parse_layer_def)

lemma parse_frequency_fields:
  "degree_id (parse_frequency l i) = degree_id i" "srg_id (parse_frequency l i) = srg_id i"
  "pp_id (parse_frequency l i) = pp_id i" "direction (parse_frequency l i) = direction i"
  "layer (parse_frequency l i) = layer i"
  "frequency (parse_frequency l i) = (if isl (py_float l) then frequency i else Some l)"
  by (simp_all add: parse_frequency_def split: sum.split)

lemma parse_direction_fields:
  "degree_id (parse_direction ps i) = degree_id i" "srg_id (parse_direction ps i) = srg_id i"
  "pp_id (parse_direction ps i) = pp_id i" "layer (parse_direction ps i) = layer i"
  "frequency (parse_direction ps i) = frequency i"
  "direction (parse_direction ps i) =
     (if ''RX'' \<in> set ps then Some ''RX'' else if ''TX'' \<in> set ps then Some ''TX''
      else direction i)"
  by (simp_all add: parse_direction_def)

lemma info0_fields:
  "layer info0 = None" "degree_id info0 = None" "srg_id info0 = None" "pp_id info0 = None"
  "direction info0 = None" "frequency info0 = None"
  by (simp_all add: info0_def)

section \<open>Evaluation of the number model\<close>

lemmas num_eval = py_float_def py_int_def strip_def is_space_def take_sign_def lower_def
  is_digit_def drop_underscores_def parse_decimal_def parse_exponent_def startswith_def
  nat_of_digits_def digit_val_def Let_def

lemmas str_eval = str_of_nat.simps digit_char_def two_digits_def str_of_int_def fmt_02d_def

lemma fsub_Finite: "fsub (Finite a) (Finite b) = round_double (a - b)"
  by (simp add: fsub_def fneg_def)

lemma c005_val: "c005 = Finite (3602879701896397 / 72057594037927936)"
  unfolding c005_def using round_double_eval[of "-5" "1/20" 7205759403792794] by simp

lemma rd_1933: "round_double (1933 / 10) = Finite (3400569562385613 / 17592186044416)"
  using round_double_eval[of 7 "1933/10" 6801139124771226] by simp

lemma pf_1933: "py_float ''193.3'' = Inr (Finite (3400569562385613 / 17592186044416))"
  by (simp add: num_eval rd_1933)

lemma sub_1933: "fsub (Finite (3400569562385613 / 17592186044416)) c005 = Finite (773 / 4)"
  using round_double_eval[of 7 "13925130047829574451/72057594037927936" 6799379906166784]
  by (simp add: c005_val fsub_Finite)

lemma add_1933:
  "fadd (Finite (3400569562385613 / 17592186044416)) c005
     = Finite (1700724585843917 / 8796093022208)"
  using round_double_eval[of 7 "13932335807233367245/72057594037927936" 6802898343375668]
  by (simp add: c005_val)

lemma fmt_19325: "fmt_2f (Finite (773 / 4)) = ''193.25''"
  using fmt_2f_eval[of "773/4" 19325] by (simp add: str_eval)

lemma fmt_19335: "fmt_2f (Finite (1700724585843917 / 8796093022208)) = ''193.35''"
  using fmt_2f_eval[of "1700724585843917 / 8796093022208" 19335] by (simp add: str_eval)

lemma ensure_mc_deg_1933:
  "\<not> has_key (mc_name d dir ''193.3'') (interface dev) \<Longrightarrow>
     ensure_mc_deg dev d dir ''193.3'' =
       (Inr (mc_name d dir ''193.3''),
        dev\<lparr>interface := interface dev @
          [(mc_name d dir ''193.3'', mc_interface d dir ''193.25'' ''193.35'')]\<rparr>)"
  by (simp add: ensure_mc_deg_def Let_def pf_1933 sub_1933 add_1933 fmt_19325 fmt_19335
        mc_interface_def new_interface_def)

lemma ensure_nmc_deg_new:
  "\<not> has_key (nmc_name d dir f) (interface dev) \<Longrightarrow> dir = ''RX'' \<or> dir = ''TX'' \<Longrightarrow>
     ensure_nmc_deg dev d dir f =
       (nmc_name d dir f, dev\<lparr>interface := interface dev @ [(nmc_name d dir f, nmc_interface d dir f)]\<rparr>)"
  by (auto simp: ensure_nmc_deg_def Let_def nmc_interface_def new_interface_def mc_name_def)

lemma slot_overlaps_empty: "interface dev = [] \<Longrightarrow> slot_overlaps dev d dir f = False"
  by (simp add: slot_overlaps_def split: sum.split)

lemma names_1933:
  "mc_name 1 ''RX'' ''193.3'' = ''MC-TTP-DEG1-RX-193.3''"
  "nmc_name 1 ''RX'' ''193.3'' = ''NMC-CTP-DEG1-RX-193.3''"
  "mc_name 2 ''TX'' ''193.3'' = ''MC-TTP-DEG2-TX-193.3''"
  "nmc_name 2 ''TX'' ''193.3'' = ''NMC-CTP-DEG2-TX-193.3''"
  by (simp_all add: mc_name_def nmc_name_def str_eval)

lemma build_device_1933:
  assumes "interface dev = []" "roadm_connections dev = []"
  shows "build_device dev 1 (Some 2) None ''193.3'' =
     Inr (''DEG1-RX-to-DEG2-TX-193.3'',
          dev\<lparr>interface :=
                 [(''MC-TTP-DEG1-RX-193.3'', mc_interface 1 ''RX'' ''193.25'' ''193.35''),
                  (''NMC-CTP-DEG1-RX-193.3'', nmc_interface 1 ''RX'' ''193.3''),
                  (''MC-TTP-DEG2-TX-193.3'', mc_interface 2 ''TX'' ''193.25'' ''193.35''),
                  (''NMC-CTP-DEG2-TX-193.3'', nmc_interface 2 ''TX'' ''193.3'')],
               roadm_connections :=
                 [(''DEG1-RX-to-DEG2-TX-193.3'',
                   \<lparr>src_if = Some ''NMC-CTP-DEG1-RX-193.3'',
                    dst_if = Some ''NMC-CTP-DEG2-TX-193.3'',
                    opticalControlMode = Some ''off'',
                    target_output_power =
                      (if has_target_output_power dev then Some (Finite 0) else None)\<rparr>)]\<rparr>)"
  using assms
  by (simp add: build_device_def ensure_dst_def ensure_mc_deg_1933 ensure_nmc_deg_new names_1933
        has_key_def conn_name_of_def str_eval kl_create_def kl_update_def set_connection_def
        new_connection_def)

lemma rd_19325: "round_double (19325 / 100) = Finite (773 / 4)"
  using round_double_eval[of 7 "19325/100" 6799379906166784] by simp

lemma rd_19335: "round_double (19335 / 100) = Finite (6802898343375667 / 35184372088832)"
  using round_double_eval[of 7 "19335/100" 6802898343375667] by simp

lemma pf_19325: "py_float ''193.25'' = Inr (Finite (773 / 4))"
  using rd_19325 by (simp add: num_eval)

lemma pf_19335: "py_float ''193.35'' = Inr (Finite (6802898343375667 / 35184372088832))"
  using rd_19335 by (simp add: num_eval)

lemma slot_overlaps_1933: "slot_overlaps dev_1933 1 ''RX'' ''193.3''"
  by (simp add: slot_overlaps_def pf_1933 sub_1933 add_1933 dev_1933_def slot_hit_def
        startswith_def str_eval mc_interface_def py_str_def pf_19325 pf_19335 fge_def)

lemma build_1933:
  "build_connection root_D1 (deg_deg_input 1 2 ''193.3'')
     = (Inr ''Connection DEG1-RX-to-DEG2-TX-193.3 created on D1'', root_1933)"
  by (simp add: build_connection_def Let_def deg_deg_input_def root_D1_def root_1933_def overlap_check_def
        slot_overlaps_empty build_device_1933 dev_empty_def dev_1933_def conn_1933_def
        kl_update_def)

lemma overlap_check_1933:
  "overlap_check root_1933 ''D1'' ''193.3'' 1 (Some 2)
     = Some ''Rejected: frequency slot 193.3 overlaps existing MC on DEG1 RX''"
  by (simp add: overlap_check_def root_1933_def slot_overlaps_1933 slot_conflict_msg_def str_eval)























section \<open>Facts about the names and their tokens\<close>

lemma split_dash_nodash: "CHR ''-'' \<notin> set a \<Longrightarrow> split_dash a = [a]"
  by (induction a) auto

lemma split_dash_append:
  "CHR ''-'' \<notin> set a \<Longrightarrow> split_dash (a @ CHR ''-'' # b) = a # split_dash b"
  by (induction a) auto

lemma lt10_cases:
  "d < 10 \<Longrightarrow> d = 0 \<or> d = 1 \<or> d = 2 \<or> d = 3 \<or> d = 4 \<or> d = 5 \<or> d = 6 \<or> d = 7 \<or> d = 8
     \<or> d = (9::nat)"
  by arith

lemma digit_char_digit: "d < 10 \<Longrightarrow> is_digit (digit_char d)"
  by (drule lt10_cases) (auto simp: digit_char_def is_digit_def)

lemma digit_val_char: "d < 10 \<Longrightarrow> digit_val (digit_char d) = d"
  by (drule lt10_cases) (auto simp: digit_char_def digit_val_def)

lemma digit_char_nonzero: "0 < d \<Longrightarrow> d < 10 \<Longrightarrow> digit_char d \<noteq> CHR ''0''"
  by (drule lt10_cases) (auto simp: digit_char_def)

lemma str_of_nat_digits: "list_all is_digit (str_of_nat n) \<and> str_of_nat n \<noteq> []"
proof (induction n rule: str_of_nat.induct)
  case (1 n)
  show ?case
  proof (cases "n < 10")
    case True
    then show ?thesis by (simp add: str_of_nat.simps[of n] digit_char_digit)
  next
    case False
    then show ?thesis using 1 by (simp add: str_of_nat.simps[of n] digit_char_digit)
  qed
qed

lemma nat_of_digits_snoc: "nat_of_digits (xs @ [c]) = 10 * nat_of_digits xs + digit_val c"
  by (simp add: nat_of_digits_def)

lemma nat_of_digits_str: "nat_of_digits (str_of_nat n) = n"
proof (induction n rule: str_of_nat.induct)
  case (1 n)
  show ?case
  proof (cases "n < 10")
    case True
    then show ?thesis by (simp add: str_of_nat.simps[of n] nat_of_digits_def digit_val_char)
  next
    case False
    then have "nat_of_digits (str_of_nat n) = 10 * (n div 10) + n mod 10"
      using 1 by (simp add: str_of_nat.simps[of n] nat_of_digits_snoc digit_val_char)
    then show ?thesis by simp
  qed
qed

lemma str_of_nat_hd: "0 < n \<Longrightarrow> hd (str_of_nat n) \<noteq> CHR ''0''"
proof (induction n rule: str_of_nat.induct)
  case (1 n)
  show ?case
  proof (cases "n < 10")
    case True
    then show ?thesis using 1(2) by (simp add: str_of_nat.simps[of n] digit_char_nonzero)
  next
    case False
    then have "0 < n div 10" by simp
    then have "hd (str_of_nat (n div 10)) \<noteq> CHR ''0''" using 1(1) False by simp
    then show ?thesis using False str_of_nat_digits[of "n div 10"]
      by (simp add: str_of_nat.simps[of n])
  qed
qed

lemma digit_not_special:
  "is_digit c \<Longrightarrow> \<not> is_space c \<and> c \<noteq> CHR ''-'' \<and> c \<noteq> CHR ''+'' \<and> c \<noteq> CHR ''_''"
  by (auto simp: is_digit_def is_space_def)

lemma strip_id: "\<forall>c \<in> set s. \<not> is_space c \<Longrightarrow> strip s = s"
proof (cases s rule: rev_cases)
  case Nil
  then show ?thesis by (simp add: strip_def)
next
  case (snoc ys y)
  assume a: "\<forall>c \<in> set s. \<not> is_space c"
  have 1: "dropWhile is_space s = s"
    using a by (cases s) auto
  have 2: "dropWhile is_space (rev s) = rev s"
    using a snoc by simp
  show ?thesis by (simp add: strip_def 1 2)
qed

lemma no_underscore:
  "CHR ''_'' \<notin> set s \<Longrightarrow> underscores_ok b s \<and> drop_underscores s = s"
  by (induction s arbitrary: b) (auto simp: drop_underscores_def)

lemma py_int_digits:
  assumes "list_all is_digit s" "s \<noteq> []"
  shows "py_int s = Inr (int (nat_of_digits s))"
proof -
  have d: "\<forall>c \<in> set s. is_digit c" using assms(1) by (simp add: list_all_iff)
  have st: "strip s = s" using d digit_not_special by (intro strip_id) blast
  obtain c cs where s: "s = c # cs" using assms(2) by (cases s) auto
  have "is_digit c" using d s by simp
  then have ts: "take_sign s = (False, s)"
    using digit_not_special[of c] by (simp add: take_sign_def s)
  have "CHR ''_'' \<notin> set s" using d digit_not_special by blast
  then have u: "underscores_ok False s" "drop_underscores s = s" using no_underscore by blast+
  show ?thesis using assms by (simp add: py_int_def st ts u)
qed

lemma py_int_str_of_nat: "py_int (str_of_nat n) = Inr (int n)"
  using str_of_nat_digits[of n] by (simp add: py_int_digits nat_of_digits_str)
lemma strip_head:
  assumes "\<not> is_space c"
  shows "\<exists>t. strip (c # cs) = c # t"
proof -
  have 1: "dropWhile is_space (c # cs) = c # cs" using assms by simp
  have "dropWhile is_space (rev cs @ [c]) \<noteq> []"
    using assms by (simp add: dropWhile_append)
  moreover have "last (dropWhile is_space (rev cs @ [c])) = c"
    using assms by (induction "rev cs" arbitrary: cs) (auto simp: dropWhile_append split: if_splits)
  ultimately obtain ys where ys: "dropWhile is_space (rev cs @ [c]) = ys @ [c]"
    by (metis append_butlast_last_id)
  have "strip (c # cs) = rev (dropWhile is_space (rev cs @ [c]))"
    unfolding strip_def 1 by simp
  then show ?thesis unfolding ys by simp
qed

lemma py_float_head:
  assumes "c \<in> set ''DSPRT''"
  shows "isl (py_float (c # cs))"
proof -
  have ns: "\<not> is_space c" using assms by (auto simp: is_space_def)
  then obtain t where st: "strip (c # cs) = c # t" using strip_head by blast
  have ts: "take_sign (c # t) = (False, c # t)" using assms by (auto simp: take_sign_def)
  have lw: "lower c \<noteq> CHR ''i''" "lower c \<noteq> CHR ''n''" using assms by (auto simp: lower_def)
  have nd: "\<not> is_digit c" "c \<noteq> CHR ''_''" "c \<noteq> CHR ''.''"
    using assms by (auto simp: is_digit_def)
  have pd: "parse_decimal (drop_underscores (c # t)) = None"
    using nd by (simp add: parse_decimal_def drop_underscores_def Let_def startswith_def)
  show ?thesis using lw by (auto simp: py_float_def st ts pd)
qed

lemma float_token:
  assumes "\<not> isl (py_float s)"
  shows "\<not> startswith s ''DEG'' \<and> \<not> startswith s ''SRG'' \<and> \<not> startswith s ''PP''
         \<and> s \<noteq> ''RX'' \<and> s \<noteq> ''TX''"
proof (cases s)
  case Nil
  then show ?thesis by (simp add: startswith_def)
next
  case (Cons c cs)
  then have "c \<notin> set ''DSPRT''" using assms py_float_head by blast
  then show ?thesis using Cons by (auto simp: startswith_def)
qed

lemma parse_token_float: "\<not> isl (py_float s) \<Longrightarrow> parse_token i s = i"
  using float_token[of s] by (simp add: parse_token_def)

lemma parse_token_DEG:
  "parse_token i (''DEG'' @ str_of_nat n) = i\<lparr>degree_id := Some (int n)\<rparr>"
  by (simp add: parse_token_def startswith_def py_int_str_of_nat)

lemma parse_token_other:
  "parse_token i ''MC'' = i" "parse_token i ''NMC'' = i" "parse_token i ''TTP'' = i"
  "parse_token i ''CTP'' = i" "parse_token i ''RX'' = i" "parse_token i ''TX'' = i"
  by (simp_all add: parse_token_def startswith_def)

lemma parse_token_SRG1: "parse_token i ''SRG1'' = i\<lparr>srg_id := Some 1\<rparr>"
  by (simp add: parse_token_def startswith_def re_match_SRG_def is_digit_def py_int_def
        strip_def is_space_def take_sign_def drop_underscores_def nat_of_digits_def digit_val_def)

lemma re_match_PP_small: "n < 10 \<Longrightarrow>
  (case re_match_PP (''PP'' @ CHR ''0'' # str_of_nat n) of None \<Rightarrow> Inl ValueError
   | Some g \<Rightarrow> py_int g) = Inr (int n)"
  by (drule lt10_cases, elim disjE; hypsubst)
     (simp_all add: re_match_PP_def startswith_def str_of_nat.simps digit_char_def is_digit_def
        py_int_def strip_def is_space_def take_sign_def drop_underscores_def nat_of_digits_def
        digit_val_def)

lemma re_match_PP_big:
  assumes "10 \<le> n"
  shows "re_match_PP (''PP'' @ str_of_nat n) = Some (str_of_nat n)"
proof -
  obtain c cs where s: "str_of_nat n = c # cs" using str_of_nat_digits[of n] by (cases "str_of_nat n") auto
  have "c \<noteq> CHR ''0''" using str_of_nat_hd[of n] assms s by simp
  moreover have "takeWhile is_digit (c # cs) = c # cs"
    using str_of_nat_digits[of n] s by (simp add: list_all_iff)
  ultimately show ?thesis by (simp add: re_match_PP_def startswith_def s Let_def)
qed

lemma parse_token_PP:
  assumes "0 \<le> pp"
  shows "parse_token i (''PP'' @ fmt_02d pp) = i\<lparr>pp_id := Some pp\<rparr>"
proof (cases "pp < 10")
  case True
  then have n: "nat pp < 10" using assms by simp
  have w: "fmt_02d pp = CHR ''0'' # str_of_nat (nat pp)"
    using True assms by (simp add: fmt_02d_def str_of_int_def)
  show ?thesis using re_match_PP_small[OF n] assms
    by (auto simp: parse_token_def startswith_def w split: option.splits sum.splits)
next
  case False
  then have n: "10 \<le> nat pp" by simp
  have w: "fmt_02d pp = str_of_nat (nat pp)"
    using False by (simp add: fmt_02d_def str_of_int_def)
  show ?thesis using re_match_PP_big[OF n] assms False
    by (simp add: parse_token_def startswith_def w py_int_str_of_nat)
qed
lemma lower_digit: "is_digit c \<Longrightarrow> lower c = c"
  by (auto simp: is_digit_def lower_def)

lemma is_decimal_float:
  assumes "is_decimal s"
  shows "\<not> isl (py_float s) \<and> CHR ''-'' \<notin> set s"
proof -
  define ip where "ip = takeWhile is_digit s"
  define r where "r = dropWhile is_digit s"
  have ip: "ip \<noteq> []"
    and r: "r = [] \<or> (hd r = CHR ''.'' \<and> tl r \<noteq> [] \<and> list_all is_digit (tl r))"
    using assms by (simp_all add: is_decimal_def Let_def ip_def r_def)
  have s: "s = ip @ r" by (simp add: ip_def r_def)
  have ipd: "\<forall>c \<in> set ip. is_digit c" unfolding ip_def by (metis set_takeWhileD)
  have rd: "\<forall>c \<in> set r. is_digit c \<or> c = CHR ''.''"
    using r by (cases r) (auto simp: list_all_iff)
  have all: "\<forall>c \<in> set s. is_digit c \<or> c = CHR ''.''"
    using ipd rd unfolding s by auto
  have nsp: "\<forall>c \<in> set s. \<not> is_space c"
    using all digit_not_special by (auto simp: is_space_def)
  have nus: "CHR ''_'' \<notin> set s" using all digit_not_special by auto
  have nda: "CHR ''-'' \<notin> set s" using all digit_not_special by auto
  obtain c cs where ipc: "ip = c # cs" using ip by (cases ip) auto
  have cd: "is_digit c" using ipd ipc by simp
  have sc: "s = c # (cs @ r)" using s ipc by simp
  have st: "strip s = s" using nsp by (rule strip_id)
  have ts: "take_sign s = (False, s)"
    using digit_not_special[OF cd] by (simp add: take_sign_def sc)
  have "hd (map lower s) = c" using sc cd by (simp add: lower_digit)
  moreover have "c \<noteq> CHR ''i''" "c \<noteq> CHR ''n''" using cd by (auto simp: is_digit_def)
  ultimately have lw: "map lower s \<noteq> ''inf''" "map lower s \<noteq> ''infinity''"
    "map lower s \<noteq> ''nan''"
    by (metis list.sel(1))+
  have u: "underscores_ok False s" "drop_underscores s = s" using no_underscore[OF nus] by blast+
  have r2: "(if startswith r ''.'' then dropWhile is_digit (tl r) else r) = []"
    using r by (cases r) (auto simp: startswith_def list_all_iff dropWhile_eq_Nil_conv)
  have "parse_decimal s \<noteq> None"
    using ip r2 unfolding parse_decimal_def Let_def ip_def[symmetric] r_def[symmetric]
    by (simp add: parse_exponent_def)
  then have "\<not> isl (py_float s)"
    using lw by (auto simp: py_float_def st ts u split: option.splits)
  then show ?thesis using nda by simp
qed

lemma tokens_deg:
  assumes "CHR ''-'' \<notin> set a" "CHR ''-'' \<notin> set b" "CHR ''-'' \<notin> set dir" "CHR ''-'' \<notin> set fs"
  shows "split_dash (a @ ''-'' @ b @ ''-DEG'' @ str_of_nat n @ ''-'' @ dir @ ''-'' @ fs)
           = [a, b, ''DEG'' @ str_of_nat n, dir, fs]"
proof -
  have d: "CHR ''-'' \<notin> set (''DEG'' @ str_of_nat n)"
    using str_of_nat_digits[of n] digit_not_special by (auto simp: list_all_iff)
  have "split_dash (a @ CHR ''-'' # (b @ CHR ''-'' # ((''DEG'' @ str_of_nat n) @ CHR ''-'' #
           (dir @ CHR ''-'' # fs)))) = [a, b, ''DEG'' @ str_of_nat n, dir, fs]"
    by (simp only: split_dash_append[OF assms(1)] split_dash_append[OF assms(2)]
          split_dash_append[OF d] split_dash_append[OF assms(3)] split_dash_nodash[OF assms(4)])
  then show ?thesis by simp
qed

lemma tokens_srg:
  assumes "CHR ''-'' \<notin> set w" "CHR ''-'' \<notin> set dir" "CHR ''-'' \<notin> set fs"
  shows "split_dash (''SRG1-PP'' @ w @ ''-'' @ dir @ ''-'' @ fs) = [''SRG1'', ''PP'' @ w, dir, fs]"
proof -
  have a: "CHR ''-'' \<notin> set ''SRG1''" by simp
  have d: "CHR ''-'' \<notin> set (''PP'' @ w)" using assms(1) by simp
  have "split_dash (''SRG1'' @ CHR ''-'' # ((''PP'' @ w) @ CHR ''-'' # (dir @ CHR ''-'' # fs)))
          = [''SRG1'', ''PP'' @ w, dir, fs]"
    by (simp only: split_dash_append[OF a] split_dash_append[OF d]
          split_dash_append[OF assms(2)] split_dash_nodash[OF assms(3)])
  then show ?thesis by simp
qed

lemma parse_deg_name:
  assumes "tag = ''MC'' \<and> role = ''TTP'' \<or> tag = ''NMC'' \<and> role = ''CTP''"
    and "dir = ''RX'' \<or> dir = ''TX''" "\<not> isl (py_float fs)" "CHR ''-'' \<notin> set fs"
  shows "parse_if_name (tag @ ''-'' @ role @ ''-DEG'' @ str_of_nat n @ ''-'' @ dir @ ''-'' @ fs)
     = Inr \<lparr>layer = Some tag, degree_id = Some (int n), srg_id = None, pp_id = None,
            direction = Some dir, frequency = Some fs\<rparr>"
proof -
  have nd: "CHR ''-'' \<notin> set tag" "CHR ''-'' \<notin> set role" "CHR ''-'' \<notin> set dir"
    using assms(1,2) by auto
  note tk = tokens_deg[OF nd assms(4), of n]
  have ft: "fs \<noteq> ''RX''" "fs \<noteq> ''TX''" using float_token[OF assms(3)] by simp_all
  have pt: "parse_token i tag = i" "parse_token i role = i" "parse_token i dir = i" for i
    using assms(1,2) parse_token_other by auto
  have lay: "parse_layer tag i = i\<lparr>layer := Some tag\<rparr>" for i
    using assms(1) by (auto simp: parse_layer_def)
  have pf: "parse_frequency fs i = i\<lparr>frequency := Some fs\<rparr>" for i
    using assms(3) by (cases "py_float fs") (simp_all add: parse_frequency_def)
  have pd: "parse_direction [tag, role, CHR ''D'' # CHR ''E'' # CHR ''G'' # str_of_nat n, dir, fs]
              info0 = info0\<lparr>direction := Some dir\<rparr>"
    using assms(1,2) ft by (auto simp: parse_direction_def)
  show ?thesis
    unfolding parse_if_name_eq tk
    by (simp add: pt parse_token_DEG[simplified] parse_token_float[OF assms(3)] lay pf pd)
       (simp add: info0_def)
qed

lemma parse_srg_name:
  assumes "0 \<le> pp" "dir = ''RX'' \<or> dir = ''TX''" "\<not> isl (py_float fs)" "CHR ''-'' \<notin> set fs"
  shows "parse_if_name (srg_pp_name pp dir fs)
     = Inr \<lparr>layer = Some ''NMC'', degree_id = None, srg_id = Some 1, pp_id = Some pp,
            direction = Some dir, frequency = Some fs\<rparr>"
proof -
  have w: "CHR ''-'' \<notin> set (fmt_02d pp)"
    using assms(1) str_of_nat_digits[of "nat pp"] digit_not_special
    by (auto simp: fmt_02d_def str_of_int_def list_all_iff)
  have nd: "CHR ''-'' \<notin> set dir" using assms(2) by auto
  note tk = tokens_srg[OF w nd assms(4)]
  have ft: "fs \<noteq> ''RX''" "fs \<noteq> ''TX''" using float_token[OF assms(3)] by simp_all
  have pt: "parse_token i dir = i" for i using assms(2) parse_token_other by auto
  have pf: "parse_frequency fs i = i\<lparr>frequency := Some fs\<rparr>" for i
    using assms(3) by (cases "py_float fs") (simp_all add: parse_frequency_def)
  have pd: "parse_direction [''SRG1'', CHR ''P'' # CHR ''P'' # fmt_02d pp, dir, fs] info0
              = info0\<lparr>direction := Some dir\<rparr>"
    using assms(2) ft by (auto simp: parse_direction_def)
  have lay: "parse_layer ''SRG1'' i = i\<lparr>layer := Some ''NMC''\<rparr>" for i
    by (simp add: parse_layer_def startswith_def)
  show ?thesis
    unfolding parse_if_name_eq srg_pp_name_def tk
    by (simp add: pt parse_token_SRG1 parse_token_PP[OF assms(1), simplified]
          parse_token_float[OF assms(3)] lay pf pd)
       (simp add: info0_def)
qed

section \<open>The claims\<close>



text \<open>
  Claim C4, the validation of a build and its rejections. Without source degree the result
  is the message that the source degree must be provided, whatever the destination is; with
  a source degree and no destination, or both destinations, the result is the message of the
  ambiguous or missing destination; a slot conflict found by the overlap check is the
  result. In each of these cases the store is returned as it was, and the store changes
  only when the result is the message of a created connection.
\<close>

theorem build_validation:
  "(bi_src_degree inp = None \<longrightarrow>
      build_connection r inp = (Inr ''Error: src-degree must be provided'', r)) \<and>
   (bi_src_degree inp \<noteq> None \<and> bi_dst_degree inp = None \<and> bi_dst_pp inp = None \<longrightarrow>
      build_connection r inp = (Inr ''Error: either dst-degree or dst-pp must be provided'', r)) \<and>
   (bi_src_degree inp \<noteq> None \<and> bi_dst_degree inp \<noteq> None \<and> bi_dst_pp inp \<noteq> None \<longrightarrow>
      build_connection r inp = (Inr ''Error: provide only one of dst-degree or dst-pp'', r)) \<and>
   (bi_src_degree inp = Some s \<and> (bi_dst_degree inp = None) \<noteq> (bi_dst_pp inp = None) \<and>
    overlap_check r (bi_device inp) (bi_frequency inp) s (bi_dst_degree inp) = Some msg \<longrightarrow>
      build_connection r inp = (Inr msg, r)) \<and>
   (snd (build_connection r inp) \<noteq> r \<longrightarrow>
      (\<exists>cn. fst (build_connection r inp)
             = Inr (''Connection '' @ cn @ '' created on '' @ bi_device inp)))"
proof (intro conjI impI)
  show "bi_src_degree inp = None \<Longrightarrow>
      build_connection r inp = (Inr ''Error: src-degree must be provided'', r)"
    by (rule build_src_none)
  show "bi_src_degree inp \<noteq> None \<and> bi_dst_degree inp = None \<and> bi_dst_pp inp = None \<Longrightarrow>
      build_connection r inp = (Inr ''Error: either dst-degree or dst-pp must be provided'', r)"
    using build_dst_none by blast
  show "bi_src_degree inp \<noteq> None \<and> bi_dst_degree inp \<noteq> None \<and> bi_dst_pp inp \<noteq> None \<Longrightarrow>
      build_connection r inp = (Inr ''Error: provide only one of dst-degree or dst-pp'', r)"
    using build_dst_both by blast
  show "bi_src_degree inp = Some s \<and> (bi_dst_degree inp = None) \<noteq> (bi_dst_pp inp = None) \<and>
    overlap_check r (bi_device inp) (bi_frequency inp) s (bi_dst_degree inp) = Some msg \<Longrightarrow>
      build_connection r inp = (Inr msg, r)"
    by (simp add: build_valid)
  show "snd (build_connection r inp) \<noteq> r \<Longrightarrow>
      \<exists>cn. fst (build_connection r inp)
             = Inr (''Connection '' @ cn @ '' created on '' @ bi_device inp)"
    by (rule build_changed)
qed

text \<open>
  The witness: on D1, a build without source degree, without destination and with both
  destinations; the build at 193.3 on the empty device, which changes the store; and the
  same build again, which the overlap check rejects.
\<close>

theorem build_validation_witness:
  "build_connection root_D1 ((deg_deg_input 1 2 ''193.3'')\<lparr>bi_src_degree := None\<rparr>)
     = (Inr ''Error: src-degree must be provided'', root_D1) \<and>
   build_connection root_D1 ((deg_deg_input 1 2 ''193.3'')\<lparr>bi_dst_degree := None\<rparr>)
     = (Inr ''Error: either dst-degree or dst-pp must be provided'', root_D1) \<and>
   build_connection root_D1 ((deg_deg_input 1 2 ''193.3'')\<lparr>bi_dst_pp := Some 3\<rparr>)
     = (Inr ''Error: provide only one of dst-degree or dst-pp'', root_D1) \<and>
   build_connection root_1933 (deg_deg_input 1 2 ''193.3'')
     = (Inr ''Rejected: frequency slot 193.3 overlaps existing MC on DEG1 RX'', root_1933) \<and>
   snd (build_connection root_D1 (deg_deg_input 1 2 ''193.3'')) \<noteq> root_D1 \<and>
   (\<exists>cn. fst (build_connection root_D1 (deg_deg_input 1 2 ''193.3''))
            = Inr (''Connection '' @ cn @ '' created on D1''))"
proof -
  have ne: "snd (build_connection root_D1 (deg_deg_input 1 2 ''193.3'')) \<noteq> root_D1"
    unfolding build_1933 snd_conv
    by (simp add: root_1933_def root_D1_def dev_1933_def dev_empty_def)
  show ?thesis
    using build_validation[of "(deg_deg_input 1 2 ''193.3'')\<lparr>bi_src_degree := None\<rparr>" root_D1]
      build_validation[of "(deg_deg_input 1 2 ''193.3'')\<lparr>bi_dst_degree := None\<rparr>" root_D1]
      build_validation[of "(deg_deg_input 1 2 ''193.3'')\<lparr>bi_dst_pp := Some 3\<rparr>" root_D1]
      build_validation[of "deg_deg_input 1 2 ''193.3''" root_1933 1
        "''Rejected: frequency slot 193.3 overlaps existing MC on DEG1 RX''"]
      build_validation[of "deg_deg_input 1 2 ''193.3''" root_D1]
      overlap_check_1933 ne
    by (simp add: deg_deg_input_def)
qed



text \<open>
  Claim C8, discovery twice in a row. A second run of the discovery with the same list of
  devices, on the store that the first run left, returns the same result and the same
  store, and so the same topology cache.
\<close>

theorem discover_idempotent:
  "discover_topology (snd (discover_topology r ds)) ds = discover_topology r ds"
  by (simp add: discover_topology_def Let_def split: sum.split)

text \<open>
  Claim C6, the cleanup of a delete. On a device that has the connection, the delete
  removes the connection record and, of the interfaces, exactly those whose name is a
  candidate and is not used. The candidates are the two end points of the connection and
  the supporting interfaces of the end points that exist; the used names are the end points
  of the connections that remain and the supporting interfaces of those of them that exist.
\<close>

theorem delete_cleanup:
  assumes "map_of (devices r) dn = Some dev" "map_of (roadm_connections dev) cn = Some conn"
  shows "delete_connection r dn cn =
     (Inr (deleted_msg cn dn),
      r\<lparr>devices := kl_update dn
        (\<lambda>_. dev\<lparr>roadm_connections := kl_delete cn (roadm_connections dev),
                  interface := filter (\<lambda>(k, v). \<not> (k \<in> set (delete_candidates dev conn)
                                                   \<and> k \<notin> set (used_if dev cn)))
                                 (interface dev)\<rparr>)
        (devices r)\<rparr>) \<and>
   set (delete_candidates dev conn) =
     {py_str (src_if conn), py_str (dst_if conn)} \<union>
     {s. \<exists>e i. e \<in> {py_str (src_if conn), py_str (dst_if conn)}
               \<and> map_of (interface dev) e = Some i \<and> s \<in> set (supporting_interface_list i)} \<and>
   set (used_if dev cn) =
     {n. \<exists>k rc. (k, rc) \<in> set (roadm_connections dev) \<and> k \<noteq> cn \<and>
          (n = py_str (src_if rc) \<or> n = py_str (dst_if rc) \<or>
           (\<exists>e i. e \<in> {py_str (src_if rc), py_str (dst_if rc)}
                  \<and> map_of (interface dev) e = Some i
                  \<and> n \<in> set (supporting_interface_list i)))}"
proof (intro conjI)
  show "delete_connection r dn cn =
     (Inr (deleted_msg cn dn),
      r\<lparr>devices := kl_update dn
        (\<lambda>_. dev\<lparr>roadm_connections := kl_delete cn (roadm_connections dev),
                  interface := filter (\<lambda>(k, v). \<not> (k \<in> set (delete_candidates dev conn)
                                                   \<and> k \<notin> set (used_if dev cn)))
                                 (interface dev)\<rparr>)
        (devices r)\<rparr>)"
    using assms
    by (simp add: delete_connection_def delete_device_def delete_unused_filter deleted_msg_def)
  show "set (delete_candidates dev conn) =
     {py_str (src_if conn), py_str (dst_if conn)} \<union>
     {s. \<exists>e i. e \<in> {py_str (src_if conn), py_str (dst_if conn)}
               \<and> map_of (interface dev) e = Some i \<and> s \<in> set (supporting_interface_list i)}"
    by (auto simp: delete_candidates_def Let_def set_supports_of)
  show "set (used_if dev cn) =
     {n. \<exists>k rc. (k, rc) \<in> set (roadm_connections dev) \<and> k \<noteq> cn \<and>
          (n = py_str (src_if rc) \<or> n = py_str (dst_if rc) \<or>
           (\<exists>e i. e \<in> {py_str (src_if rc), py_str (dst_if rc)}
                  \<and> map_of (interface dev) e = Some i
                  \<and> n \<in> set (supporting_interface_list i)))}"
    by (auto simp: used_if_def Let_def set_supports_of kl_delete_def)
qed

text \<open>
  The witness: deleting the connection of D1 after the build at 193.3 leaves the device
  without connection and interface; when a second connection shares the source interface,
  that interface and its media-channel interface stay, and the two interfaces of degree
  2 go.
\<close>

theorem delete_cleanup_witness:
  "map_of (devices root_1933) ''D1'' = Some dev_1933 \<and>
   map_of (roadm_connections dev_1933) ''DEG1-RX-to-DEG2-TX-193.3'' = Some conn_1933 \<and>
   delete_connection root_1933 ''D1'' ''DEG1-RX-to-DEG2-TX-193.3''
     = (Inr (deleted_msg ''DEG1-RX-to-DEG2-TX-193.3'' ''D1''), root_D1) \<and>
   map_of (devices (root_of dev_shared)) ''D1'' = Some dev_shared \<and>
   map_of (roadm_connections dev_shared) ''DEG1-RX-to-DEG2-TX-193.3'' = Some conn_1933 \<and>
   delete_connection (root_of dev_shared) ''D1'' ''DEG1-RX-to-DEG2-TX-193.3''
     = (Inr (deleted_msg ''DEG1-RX-to-DEG2-TX-193.3'' ''D1''), root_of dev_shared_after)"
proof -
  have h1: "map_of (devices root_1933) ''D1'' = Some dev_1933"
    "map_of (roadm_connections dev_1933) ''DEG1-RX-to-DEG2-TX-193.3'' = Some conn_1933"
    by (simp_all add: root_1933_def dev_1933_def dev_empty_def)
  have h2: "map_of (devices (root_of dev_shared)) ''D1'' = Some dev_shared"
    "map_of (roadm_connections dev_shared) ''DEG1-RX-to-DEG2-TX-193.3'' = Some conn_1933"
    by (simp_all add: root_of_def dev_shared_def dev_1933_def dev_empty_def)
  have c1: "delete_candidates dev_1933 conn_1933 =
      [''NMC-CTP-DEG1-RX-193.3'', ''NMC-CTP-DEG2-TX-193.3'', ''MC-TTP-DEG1-RX-193.3'',
       ''MC-TTP-DEG2-TX-193.3'']"
    "used_if dev_1933 ''DEG1-RX-to-DEG2-TX-193.3'' = []"
    by (simp_all add: delete_candidates_def used_if_def supports_of_def dev_1933_def
          dev_empty_def conn_1933_def py_str_def nmc_interface_def names_1933 kl_delete_def)
  have c2: "delete_candidates dev_shared conn_1933 =
      [''NMC-CTP-DEG1-RX-193.3'', ''NMC-CTP-DEG2-TX-193.3'', ''MC-TTP-DEG1-RX-193.3'',
       ''MC-TTP-DEG2-TX-193.3'']"
    "used_if dev_shared ''DEG1-RX-to-DEG2-TX-193.3'' =
      [''NMC-CTP-DEG1-RX-193.3'', ''SRG1-PP03-TX-193.3'', ''MC-TTP-DEG1-RX-193.3'']"
    by (simp_all add: delete_candidates_def used_if_def supports_of_def dev_shared_def
          dev_1933_def dev_empty_def conn_1933_def conn_shared_def py_str_def nmc_interface_def
          srg_interface_def names_1933 kl_delete_def)
  have r1: "delete_connection root_1933 ''D1'' ''DEG1-RX-to-DEG2-TX-193.3''
     = (Inr (deleted_msg ''DEG1-RX-to-DEG2-TX-193.3'' ''D1''), root_D1)"
    using delete_cleanup[OF h1] unfolding c1
    by (simp add: root_1933_def root_D1_def dev_1933_def dev_empty_def kl_update_def
          kl_delete_def)
  have r2: "delete_connection (root_of dev_shared) ''D1'' ''DEG1-RX-to-DEG2-TX-193.3''
     = (Inr (deleted_msg ''DEG1-RX-to-DEG2-TX-193.3'' ''D1''), root_of dev_shared_after)"
    using delete_cleanup[OF h2] unfolding c2
    by (simp add: root_of_def dev_shared_def dev_shared_after_def dev_1933_def dev_empty_def
          kl_update_def kl_delete_def)
  show ?thesis using h1 h2 r1 r2 by simp
qed













text \<open>
  Claim C7, the parser is total and leaves unset what the name does not give. For every
  string \<open>parse_if_name\<close> returns a record, and raises nothing. The direction is RX or TX
  when a token is, and unset otherwise; the frequency is the last token when \<open>float\<close>
  accepts it, and unset otherwise; the layer is the first token when it is one of the four
  tags, NMC when it starts with SRG, and unset otherwise; the degree, SRG and port-pair
  identifiers are unset exactly when no token gives them. The function depends on the
  string only.
\<close>

theorem parse_if_name_total:
  "\<exists>info. parse_if_name s = Inr info \<and>
     direction info = (if ''RX'' \<in> set (split_dash s) then Some ''RX''
                       else if ''TX'' \<in> set (split_dash s) then Some ''TX'' else None) \<and>
     frequency info = (if isl (py_float (last (split_dash s))) then None
                       else Some (last (split_dash s))) \<and>
     layer info = (if hd (split_dash s) \<in> set [''OMS'', ''OTS'', ''MC'', ''NMC'']
                   then Some (hd (split_dash s))
                   else if startswith (hd (split_dash s)) ''SRG'' then Some ''NMC'' else None) \<and>
     (degree_id info = None) =
       (\<not> list_ex (\<lambda>p. startswith p ''DEG'' \<and> \<not> isl (py_int (drop 3 p))) (split_dash s)) \<and>
     (srg_id info = None) =
       (\<not> list_ex (\<lambda>p. \<not> startswith p ''DEG'' \<and> startswith p ''SRG'' \<and>
            (case re_match_SRG p of None \<Rightarrow> False | Some g \<Rightarrow> \<not> isl (py_int g)))
          (split_dash s)) \<and>
     (pp_id info = None) =
       (\<not> list_ex (\<lambda>p. \<not> startswith p ''DEG'' \<and> \<not> startswith p ''SRG'' \<and>
            startswith p ''PP'' \<and>
            (case re_match_PP p of None \<Rightarrow> False | Some g \<Rightarrow> \<not> isl (py_int g)))
          (split_dash s))"
proof -
  let ?ps = "split_dash s"
  let ?i0 = "parse_frequency (last ?ps) (parse_direction ?ps info0)"
  let ?i1 = "foldl parse_token ?i0 ?ps"
  let ?info = "parse_layer (hd ?ps) ?i1"
  have keep: "layer ?i1 = layer ?i0" "direction ?i1 = direction ?i0"
    "frequency ?i1 = frequency ?i0"
    using foldl_parse_token_keep[of ?i0 ?ps] by simp_all
  have i0: "degree_id ?i0 = None" "srg_id ?i0 = None" "pp_id ?i0 = None" "layer ?i0 = None"
    by (simp_all add: parse_frequency_fields parse_direction_fields info0_fields)
  have p: "parse_if_name s = Inr ?info" by (rule parse_if_name_eq)
  have d: "direction ?info = (if ''RX'' \<in> set ?ps then Some ''RX''
                       else if ''TX'' \<in> set ?ps then Some ''TX'' else None)"
    by (simp add: parse_layer_fields keep parse_frequency_fields parse_direction_fields
          info0_fields)
  have f: "frequency ?info = (if isl (py_float (last ?ps)) then None else Some (last ?ps))"
    by (simp add: parse_layer_fields keep parse_frequency_fields parse_direction_fields
          info0_fields)
  have l: "layer ?info = (if hd ?ps \<in> set [''OMS'', ''OTS'', ''MC'', ''NMC'']
                   then Some (hd ?ps)
                   else if startswith (hd ?ps) ''SRG'' then Some ''NMC'' else None)"
    using keep(1) i0(4) by (simp add: parse_layer_def)
  have dg: "(degree_id ?info = None) =
       (\<not> list_ex (\<lambda>p. startswith p ''DEG'' \<and> \<not> isl (py_int (drop 3 p))) ?ps)"
    by (simp only: parse_layer_fields foldl_parse_token_degree i0 simp_thms)
  have sr: "(srg_id ?info = None) =
       (\<not> list_ex (\<lambda>p. \<not> startswith p ''DEG'' \<and> startswith p ''SRG'' \<and>
            (case re_match_SRG p of None \<Rightarrow> False | Some g \<Rightarrow> \<not> isl (py_int g))) ?ps)"
    by (simp only: parse_layer_fields foldl_parse_token_srg i0 simp_thms)
  have pp: "(pp_id ?info = None) =
       (\<not> list_ex (\<lambda>p. \<not> startswith p ''DEG'' \<and> \<not> startswith p ''SRG'' \<and>
            startswith p ''PP'' \<and>
            (case re_match_PP p of None \<Rightarrow> False | Some g \<Rightarrow> \<not> isl (py_int g))) ?ps)"
    by (simp only: parse_layer_fields foldl_parse_token_pp i0 simp_thms)
  show ?thesis
    by (rule exI[of _ ?info]) (rule conjI p d f l dg sr pp)+
qed

text \<open>The witness: the empty string gives the record with every field unset.\<close>

theorem parse_if_name_total_witness: "parse_if_name [] = Inr info0"
  using parse_if_name_total[of "[]"]
  by (simp add: parse_if_name_def parse_layer_def parse_token_def parse_frequency_def
        parse_direction_def startswith_def num_eval info0_def)


text \<open>
  Claim C1, amended. For a degree and a port pair that are not negative, a direction RX
  or TX and a decimal frequency string, each of the three operations returns its name, and
  \<open>parse_if_name\<close> of the name gives back the degree (or SRG 1 and the port pair), the
  direction and the frequency string, with the layer MC for \<open>ensure_mc_deg\<close> and NMC for
  the two others.
\<close>

theorem name_roundtrip:
  assumes "0 \<le> deg" "0 \<le> pp" "dir = ''RX'' \<or> dir = ''TX''" "is_decimal fs"
  shows "fst (ensure_mc_deg dev deg dir fs) = Inr (mc_name deg dir fs) \<and>
         parse_if_name (mc_name deg dir fs)
           = Inr \<lparr>layer = Some ''MC'', degree_id = Some deg, srg_id = None, pp_id = None,
                  direction = Some dir, frequency = Some fs\<rparr> \<and>
         fst (ensure_nmc_deg dev deg dir fs) = nmc_name deg dir fs \<and>
         parse_if_name (nmc_name deg dir fs)
           = Inr \<lparr>layer = Some ''NMC'', degree_id = Some deg, srg_id = None, pp_id = None,
                  direction = Some dir, frequency = Some fs\<rparr> \<and>
         fst (ensure_nmc_srg_pp dev pp dir fs) = srg_pp_name pp dir fs \<and>
         parse_if_name (srg_pp_name pp dir fs)
           = Inr \<lparr>layer = Some ''NMC'', degree_id = None, srg_id = Some 1, pp_id = Some pp,
                  direction = Some dir, frequency = Some fs\<rparr>"
proof -
  have fl: "\<not> isl (py_float fs)" and nd: "CHR ''-'' \<notin> set fs"
    using is_decimal_float[OF assms(4)] by simp_all
  have mc: "mc_name deg dir fs
      = ''MC'' @ ''-'' @ ''TTP'' @ ''-DEG'' @ str_of_nat (nat deg) @ ''-'' @ dir @ ''-'' @ fs"
    using assms(1) by (simp add: mc_name_def str_of_int_def)
  have nmc: "nmc_name deg dir fs
      = ''NMC'' @ ''-'' @ ''CTP'' @ ''-DEG'' @ str_of_nat (nat deg) @ ''-'' @ dir @ ''-'' @ fs"
    using assms(1) by (simp add: nmc_name_def str_of_int_def)
  have 1: "parse_if_name (mc_name deg dir fs)
           = Inr \<lparr>layer = Some ''MC'', degree_id = Some deg, srg_id = None, pp_id = None,
                  direction = Some dir, frequency = Some fs\<rparr>"
    unfolding mc using parse_deg_name[of "''MC''" "''TTP''" dir fs "nat deg"] assms(1,3) fl nd
    by simp
  have 2: "parse_if_name (nmc_name deg dir fs)
           = Inr \<lparr>layer = Some ''NMC'', degree_id = Some deg, srg_id = None, pp_id = None,
                  direction = Some dir, frequency = Some fs\<rparr>"
    unfolding nmc using parse_deg_name[of "''NMC''" "''CTP''" dir fs "nat deg"] assms(1,3) fl nd
    by simp
  have 3: "parse_if_name (srg_pp_name pp dir fs)
           = Inr \<lparr>layer = Some ''NMC'', degree_id = None, srg_id = Some 1, pp_id = Some pp,
                  direction = Some dir, frequency = Some fs\<rparr>"
    using assms(2,3) fl nd by (rule parse_srg_name)
  show ?thesis
    using 1 2 3 ensure_mc_deg_fst[OF fl] ensure_nmc_deg_fst ensure_nmc_srg_pp_fst by simp
qed

text \<open>The witness: degree 1, port pair 3, TX and 193.3.\<close>

theorem name_roundtrip_witness:
  "(0::int) \<le> 1 \<and> (0::int) \<le> 3 \<and> is_decimal ''193.3'' \<and>
   parse_if_name (mc_name 1 ''TX'' ''193.3'')
     = Inr \<lparr>layer = Some ''MC'', degree_id = Some 1, srg_id = None, pp_id = None,
            direction = Some ''TX'', frequency = Some ''193.3''\<rparr> \<and>
   parse_if_name (nmc_name 1 ''TX'' ''193.3'')
     = Inr \<lparr>layer = Some ''NMC'', degree_id = Some 1, srg_id = None, pp_id = None,
            direction = Some ''TX'', frequency = Some ''193.3''\<rparr> \<and>
   parse_if_name (srg_pp_name 3 ''TX'' ''193.3'')
     = Inr \<lparr>layer = Some ''NMC'', degree_id = None, srg_id = Some 1, pp_id = Some 3,
            direction = Some ''TX'', frequency = Some ''193.3''\<rparr>"
proof -
  have d: "is_decimal ''193.3''" by (simp add: is_decimal_def is_digit_def)
  show ?thesis
    using d name_roundtrip[of 1 3 "''TX''" "''193.3''", OF _ _ _ d] by simp
qed

text \<open>
  The claim as it stands fails for a negative degree: \<open>ensure_mc_deg\<close> with the degree -1
  returns the name MC-TTP-DEG-1-RX-193.3, in which the token of the degree is \<open>DEG\<close>
  alone, and the parser leaves the degree unset.
\<close>

theorem name_roundtrip_counterexample:
  "fst (ensure_mc_deg dev_empty (- 1) ''RX'' ''193.3'') = Inr ''MC-TTP-DEG-1-RX-193.3'' \<and>
   parse_if_name ''MC-TTP-DEG-1-RX-193.3''
     = Inr \<lparr>layer = Some ''MC'', degree_id = None, srg_id = None, pp_id = None,
            direction = Some ''RX'', frequency = Some ''193.3''\<rparr>"
proof -
  have "\<not> isl (py_float ''193.3'')" by (simp add: pf_1933)
  then have "fst (ensure_mc_deg dev_empty (- 1) ''RX'' ''193.3'') = Inr (mc_name (- 1) ''RX'' ''193.3'')"
    by (rule ensure_mc_deg_fst)
  moreover have "mc_name (- 1) ''RX'' ''193.3'' = ''MC-TTP-DEG-1-RX-193.3''"
    by (simp add: mc_name_def str_eval)
  moreover have "parse_if_name ''MC-TTP-DEG-1-RX-193.3''
     = Inr \<lparr>layer = Some ''MC'', degree_id = None, srg_id = None, pp_id = None,
            direction = Some ''RX'', frequency = Some ''193.3''\<rparr>"
    by (simp add: parse_if_name_def parse_layer_def parse_token_def parse_frequency_def
          parse_direction_def info0_def pf_1933 re_match_SRG_def re_match_PP_def num_eval)
  ultimately show ?thesis by simp
qed


end
